theory Spec2Isabelle
  imports Main "HOL-Library.Word" "HOL-Library.Sublist"
begin

unbundle bit_operations_syntax

section \<open>Calls into the environment\<close>

text \<open>
  The driver calls the kernel's I2C layer and the application calls the C library; what
  these calls answer is not decided by the program. A run is therefore modelled against
  an environment \<open>env\<close>: a function that, given the history of all calls made so far
  (each with its reply) and the next call, gives the reply to that call. A reply is the
  call's return value together with the bytes the call stores into the caller's buffer
  (empty for calls that store nothing). Every modelled function takes the history and
  returns it extended by the calls it made, in order.
\<close>

type_synonym byte = "8 word"
type_synonym reply = "int \<times> byte list"
type_synonym 'c hist = "('c \<times> reply) list"
type_synonym 'c env = "'c hist \<Rightarrow> 'c \<Rightarrow> reply"

definition sys :: "'c env \<Rightarrow> 'c \<Rightarrow> 'c hist \<Rightarrow> reply \<times> 'c hist" where
  "sys env c h = (env h c, h @ [(c, env h c)])"

text \<open>The calls made since an earlier history \<open>h\<close>.\<close>

definition since :: "'c hist \<Rightarrow> 'c hist \<Rightarrow> 'c hist" where
  "since h h' = drop (length h) h'"

text \<open>
  A callee stores \<open>d\<close> at the start of the buffer \<open>buf\<close>; bytes of \<open>buf\<close> beyond \<open>d\<close>
  keep their old contents, and \<open>d\<close> is cut at the buffer's size.
\<close>

definition fill :: "byte list \<Rightarrow> byte list \<Rightarrow> byte list" where
  "fill buf d = take (length buf) (d @ drop (length d) buf)"

section \<open>The sensor driver (i2c-soil-drv/main.c)\<close>

subsection \<open>Constants of i2c-soil-drv-int.h and i2c-soil-drv-api.h\<close>

definition I2C_TOUCH_BASE_ADDR :: byte where "I2C_TOUCH_BASE_ADDR = 0x0f"
definition I2C_TOUCH_OFFSET :: byte where "I2C_TOUCH_OFFSET = 0x10"
definition I2C_MSEC_DELAY :: nat where "I2C_MSEC_DELAY = 10"
definition I2C_HIGH_OUT_OF_RANGE :: int where "I2C_HIGH_OUT_OF_RANGE = 4095"
definition I2C_MAX_REREADS :: int where "I2C_MAX_REREADS = 4"

definition I2C_READING_OUT_OF_BOUNDS :: "int \<Rightarrow> bool" where
  "I2C_READING_OUT_OF_BOUNDS X \<longleftrightarrow> X < 0 \<or> X > I2C_HIGH_OUT_OF_RANGE"

definition I2C_MIN_RAW_DRY_READING :: int where "I2C_MIN_RAW_DRY_READING = 0x2a0"
definition I2C_MAX_RAW_WET_READING :: int where "I2C_MAX_RAW_WET_READING = 0x39f"
definition I2C_MIN_DRY_READING :: int where "I2C_MIN_DRY_READING = 0"
definition I2C_MAX_WET_READING :: int where "I2C_MAX_WET_READING = 255"

definition EIO :: int where "EIO = 5"
definition EFAULT :: int where "EFAULT = 14"

definition SIM_ON_CMD :: "byte list" where "SIM_ON_CMD = map of_char ''sim-on''"
definition SIM_OFF_CMD :: "byte list" where "SIM_OFF_CMD = map of_char ''sim-off''"
definition MAX_CMD_BUF_SIZE :: nat where "MAX_CMD_BUF_SIZE = 8"

subsection \<open>One sensor transaction\<close>

text \<open>
  The kernel calls of the driver. \<open>I2c_master_send buf n\<close> sends the first \<open>n\<close> bytes of
  \<open>buf\<close>, \<open>I2c_master_recv n\<close> asks for \<open>n\<close> bytes, \<open>Msleep ms\<close> sleeps. The diagnostic
  output (\<open>printk\<close>, \<open>PDEBUG\<close>) is left out.
\<close>

datatype kcall =
    I2c_master_send "byte list" nat
  | I2c_master_recv nat
  | Msleep nat

text \<open>
  \<open>i2c_soil_drv_single_read_sensor\<close>: \<open>ssize_t\<close> is \<open>int\<close> (no value here comes near its
  range). \<open>i2c_buf\<close> is a \<open>char[2]\<close>; the kernel is compiled with unsigned \<open>char\<close>, so
  each byte is read as 0..255 when the two are merged.
\<close>

definition i2c_soil_drv_single_read_sensor :: "kcall env \<Rightarrow> kcall hist \<Rightarrow> int \<times> kcall hist" where
  "i2c_soil_drv_single_read_sensor env h =
     (let i2c_buf = [I2C_TOUCH_BASE_ADDR, I2C_TOUCH_OFFSET] in
      case sys env (I2c_master_send i2c_buf 2) h of ((retval, _), h1) \<Rightarrow>
        if retval < 0 then (retval, h1)
        else if 2 \<noteq> retval then (- EIO, h1)
        else
          case sys env (Msleep I2C_MSEC_DELAY) h1 of (_, h2) \<Rightarrow>
          case sys env (I2c_master_recv 2) h2 of ((retval, d), h3) \<Rightarrow>
            let i2c_buf = fill i2c_buf d in
            if retval < 0 then (retval, h3)
            else if 2 \<noteq> retval then (- EIO, h3)
            else (push_bit 8 (uint (i2c_buf ! 0)) OR uint (i2c_buf ! 1), h3))"

subsection \<open>Acquisition: re-reads and normalization\<close>

text \<open>The \<open>for\<close> loop of \<open>i2c_soil_drv_read_sensor\<close>, with its counter \<open>i\<close>.\<close>

function reread_loop :: "kcall env \<Rightarrow> int \<Rightarrow> int \<Rightarrow> kcall hist \<Rightarrow> int \<times> kcall hist" where
  "reread_loop env reading i h =
     (if I2C_READING_OUT_OF_BOUNDS reading \<and> i < I2C_MAX_REREADS then
        case sys env (Msleep I2C_MSEC_DELAY) h of (_, h1) \<Rightarrow>
        case i2c_soil_drv_single_read_sensor env h1 of (reading', h2) \<Rightarrow>
          reread_loop env reading' (i + 1) h2
      else (reading, h))"
  by pat_completeness auto
termination
  by (relation "measure (\<lambda>(env, reading, i, h). nat (I2C_MAX_REREADS - i))") auto

text \<open>The final \<open>if\<close> chain of \<open>i2c_soil_drv_read_sensor\<close> (what it returns for a reading).\<close>

definition normalize_reading :: "int \<Rightarrow> int" where
  "normalize_reading reading =
     (if I2C_READING_OUT_OF_BOUNDS reading then - EIO
      else if reading < I2C_MIN_RAW_DRY_READING then I2C_MIN_DRY_READING
      else if reading > I2C_MAX_RAW_WET_READING then I2C_MAX_WET_READING
      else reading - I2C_MIN_RAW_DRY_READING)"

definition i2c_soil_drv_read_sensor :: "kcall env \<Rightarrow> kcall hist \<Rightarrow> int \<times> kcall hist" where
  "i2c_soil_drv_read_sensor env h =
     (case i2c_soil_drv_single_read_sensor env h of (reading, h1) \<Rightarrow>
      case reread_loop env reading 0 h1 of (reading, h2) \<Rightarrow>
        (normalize_reading reading, h2))"

text \<open>
  Reading a run. \<open>attempt\<close> is the history after one more transaction and \<open>settle\<close>
  the history after the delay that precedes a re-read. The \<open>k\<close>-th re-read of an
  acquisition begun at \<open>h\<close> starts from \<open>attempt_start env h k\<close> (for \<open>k = 0\<close> this is
  the first transaction) and yields \<open>attempt_reading env h k\<close>. \<open>transactions\<close> counts
  the transactions of a history: each one begins with exactly one \<open>I2c_master_send\<close>.
\<close>

definition attempt :: "kcall env \<Rightarrow> kcall hist \<Rightarrow> kcall hist" where
  "attempt env h = snd (i2c_soil_drv_single_read_sensor env h)"

definition settle :: "kcall env \<Rightarrow> kcall hist \<Rightarrow> kcall hist" where
  "settle env h = snd (sys env (Msleep I2C_MSEC_DELAY) h)"

definition attempt_start :: "kcall env \<Rightarrow> kcall hist \<Rightarrow> nat \<Rightarrow> kcall hist" where
  "attempt_start env h k = ((settle env \<circ> attempt env) ^^ k) h"

definition attempt_reading :: "kcall env \<Rightarrow> kcall hist \<Rightarrow> nat \<Rightarrow> int" where
  "attempt_reading env h k = fst (i2c_soil_drv_single_read_sensor env (attempt_start env h k))"

fun is_send :: "kcall \<Rightarrow> bool" where
  "is_send (I2c_master_send _ _) = True"
| "is_send _ = False"

definition transactions :: "kcall hist \<Rightarrow> nat" where
  "transactions h = length (filter (\<lambda>(c, r). is_send c) h)"

text \<open>
  The transaction started at \<open>h\<close> fails in transport: the send, or the receive that
  follows it, returns something other than the two bytes asked for (an error code or a
  partial transfer).
\<close>

definition transport_failed :: "kcall env \<Rightarrow> kcall hist \<Rightarrow> bool" where
  "transport_failed env h =
     (case sys env (I2c_master_send [I2C_TOUCH_BASE_ADDR, I2C_TOUCH_OFFSET] 2) h of
        ((s, _), h1) \<Rightarrow>
          s \<noteq> 2 \<or> fst (fst (sys env (I2c_master_recv 2) (settle env h1))) \<noteq> 2)"

subsection \<open>The device's read and write operations\<close>

text \<open>The fields of \<open>struct i2c_soil_dev\<close> that the operations use.\<close>

record i2c_soil_dev =
  use_simulation :: int
  sim_data :: byte

text \<open>
  C strings are byte lists; the end of a list stands for the terminating NUL.
  \<open>strncmp\<close> compares at most \<open>n\<close> bytes and stops at a NUL.
\<close>

fun strncmp :: "byte list \<Rightarrow> byte list \<Rightarrow> nat \<Rightarrow> int" where
  "strncmp s1 s2 0 = 0"
| "strncmp s1 s2 (Suc n) =
     (let c1 = (case s1 of [] \<Rightarrow> 0 | c # _ \<Rightarrow> c);
          c2 = (case s2 of [] \<Rightarrow> 0 | c # _ \<Rightarrow> c)
      in if c1 \<noteq> c2 then uint c1 - uint c2
         else if c1 = 0 then 0
         else strncmp (tl s1) (tl s2) n)"

definition strlen :: "byte list \<Rightarrow> nat" where
  "strlen s = length (takeWhile (\<lambda>c. c \<noteq> 0) s)"

text \<open>
  User memory. A user buffer is the list of bytes accessible at the user's pointer.
  \<open>copy_from_user to from n\<close> copies \<open>n\<close> bytes into the kernel buffer \<open>to\<close>; it returns
  the number of bytes it could not copy and the new contents of \<open>to\<close>, padded with zero
  bytes where the copy stopped short. \<open>copy_to_user to from n\<close> copies into the user
  buffer \<open>to\<close> and returns the number of bytes not copied and the new user buffer.
\<close>

definition copy_from_user :: "byte list \<Rightarrow> byte list \<Rightarrow> nat \<Rightarrow> nat \<times> byte list" where
  "copy_from_user to from n =
     (let k = min n (length from)
      in (n - k, take k from @ replicate (n - k) 0 @ drop n to))"

definition copy_to_user :: "byte list \<Rightarrow> byte list \<Rightarrow> nat \<Rightarrow> nat \<times> byte list" where
  "copy_to_user to from n =
     (let k = min n (length to)
      in (n - k, take k from @ drop k to))"

text \<open>
  \<open>i2c_soil_drv_read\<close> returns its return value, the user buffer and the history.
  \<open>finish\<close> is the code from \<open>copy_to_user\<close> on, which both branches reach; the
  assignment of the \<open>ssize_t\<close> to the \<open>char moisture\<close> keeps the low byte.
\<close>

definition i2c_soil_drv_read ::
  "kcall env \<Rightarrow> i2c_soil_dev \<Rightarrow> byte list \<Rightarrow> nat \<Rightarrow> kcall hist \<Rightarrow> int \<times> byte list \<times> kcall hist" where
  "i2c_soil_drv_read env dev buf count h =
     (let count = 1;
          finish = (\<lambda>moisture h'.
            case copy_to_user buf [moisture] count of (not_copied, buf') \<Rightarrow>
              if not_copied \<noteq> 0 then (- EFAULT, buf', h') else (int count, buf', h'))
      in if use_simulation dev \<noteq> 0 then finish (sim_data dev) h
         else
           case i2c_soil_drv_read_sensor env h of (retval, h1) \<Rightarrow>
             if retval < 0 then (retval, buf, h1)
             else finish (word_of_int retval) h1)"

text \<open>
  \<open>i2c_soil_drv_write\<close> returns its return value and the device. The local \<open>cmd_buf\<close>
  is not initialised by the code, so its contents on entry are an argument.
\<close>

definition i2c_soil_drv_write ::
  "i2c_soil_dev \<Rightarrow> byte list \<Rightarrow> byte list \<Rightarrow> nat \<Rightarrow> int \<times> i2c_soil_dev" where
  "i2c_soil_drv_write dev cmd_buf buf count =
     (let retval = int count in
      if 1 = count then
        if use_simulation dev \<noteq> 0 then
          case copy_from_user [sim_data dev] buf count of (not_copied, d) \<Rightarrow>
            (if not_copied \<noteq> 0 then - EFAULT else retval, dev\<lparr>sim_data := d ! 0\<rparr>)
        else (retval, dev)
      else
        case copy_from_user cmd_buf buf (min MAX_CMD_BUF_SIZE count) of (not_copied, cmd_buf) \<Rightarrow>
          if not_copied \<noteq> 0 then (- EFAULT, dev)
          else if strncmp cmd_buf SIM_ON_CMD (strlen SIM_ON_CMD) = 0
            then (retval, dev\<lparr>use_simulation := 1\<rparr>)
          else if strncmp cmd_buf SIM_OFF_CMD (strlen SIM_OFF_CMD) = 0
            then (retval, dev\<lparr>use_simulation := 0\<rparr>)
          else (retval, dev))"

section \<open>The application (soil-monitor.c, gpio.c, gpio.h)\<close>

subsection \<open>Constants\<close>

definition GPIO_PIN :: string where "GPIO_PIN = ''17''"
definition GPIO_DIRECTORY :: string where "GPIO_DIRECTORY = ''/sys/class/gpio''"
definition GPIO_EXPORT :: string where "GPIO_EXPORT = GPIO_DIRECTORY @ ''/export''"
definition GPIO_UNEXPORT :: string where "GPIO_UNEXPORT = GPIO_DIRECTORY @ ''/unexport''"
definition GPIO_DIRECTION :: string where
  "GPIO_DIRECTION = GPIO_DIRECTORY @ ''/gpio'' @ GPIO_PIN @ ''/direction''"
definition GPIO_INPUT :: string where "GPIO_INPUT = ''in''"
definition GPIO_OUTPUT :: string where "GPIO_OUTPUT = ''out''"
definition GPIO_VALUE :: string where
  "GPIO_VALUE = GPIO_DIRECTORY @ ''/gpio'' @ GPIO_PIN @ ''/value''"
definition GPIO_ON :: string where "GPIO_ON = ''1''"
definition GPIO_OFF :: string where "GPIO_OFF = ''0''"
definition GPIO_ERROR :: int where "GPIO_ERROR = - 1"
definition GPIO_OK :: int where "GPIO_OK = 0"

text \<open>Values of the C library, the signal numbers of Linux and of the MQTT client library.\<close>

definition MQTTCLIENT_SUCCESS :: int where "MQTTCLIENT_SUCCESS = 0"
definition EXIT_SUCCESS :: int where "EXIT_SUCCESS = 0"
definition EXIT_FAILURE :: int where "EXIT_FAILURE = 1"
definition SIGINT :: int where "SIGINT = 2"
definition SIGUSR1 :: int where "SIGUSR1 = 10"
definition SIGTERM :: int where "SIGTERM = 15"

subsection \<open>Calls of the application\<close>

text \<open>
  The status lines that \<open>main\<close> formats into \<open>msgbuf\<close>, by their content rather than
  their text.
\<close>

datatype msg =
    Init_done
  | Current_moisture byte
  | Pump_on "32 word"
  | Pump_off
  | Sleeping_for "32 word"

text \<open>
  \<open>Open path\<close> is \<open>open(path, O_WRONLY)\<close> and returns the descriptor, \<open>Write fd s n\<close>
  and \<open>Read fd n\<close> are \<open>write\<close> and \<open>read\<close> of \<open>n\<close> bytes, \<open>Sleep\<close> takes the
  \<open>unsigned int\<close> that \<open>sleep\<close> receives. The log output (\<open>syslog\<close>, \<open>perror\<close>) is left
  out. A C function that calls \<open>exit\<close> has the outcome \<open>Exits status\<close>; one that returns
  to its caller has \<open>Continues\<close> with its result.
\<close>

datatype ucall =
    Open string
  | Write int string nat
  | Close int
  | Read int nat
  | Sleep "32 word"
  | MQTTClient_create string
  | MQTTClient_setCallbacks
  | MQTTClient_connect
  | MQTTClient_publishMessage msg

datatype 'a outcome = Continues 'a | Exits int

subsection \<open>gpio.c\<close>

text \<open>
  Each function of gpio.c tests the condition
  \<open>((fd = open(path, O_WRONLY)) == -1) || (write(fd, s, num_bytes) != num_bytes) || close(fd)\<close>
  once or twice. \<open>open_write_close\<close> is that condition, evaluated left to right: it is
  \<open>True\<close> when the condition holds, that is, when a step failed and the later steps were
  not made. The strings written contain no NUL, so \<open>strlen\<close> is \<open>length\<close>.
\<close>

definition open_write_close ::
  "ucall env \<Rightarrow> string \<Rightarrow> string \<Rightarrow> nat \<Rightarrow> ucall hist \<Rightarrow> bool \<times> ucall hist" where
  "open_write_close env path s num_bytes h =
     (case sys env (Open path) h of ((fd, _), h1) \<Rightarrow>
        if fd = - 1 then (True, h1)
        else
          case sys env (Write fd s num_bytes) h1 of ((w, _), h2) \<Rightarrow>
            if w \<noteq> int num_bytes then (True, h2)
            else
              case sys env (Close fd) h2 of ((c, _), h3) \<Rightarrow> (c \<noteq> 0, h3))"

definition gpio_enable :: "ucall env \<Rightarrow> ucall hist \<Rightarrow> int \<times> ucall hist" where
  "gpio_enable env h =
     (let num_bytes = length GPIO_PIN in
      case open_write_close env GPIO_EXPORT GPIO_PIN num_bytes h of (failed, h1) \<Rightarrow>
        if failed then (GPIO_ERROR, h1)
        else
          let num_bytes = length GPIO_OUTPUT in
          case open_write_close env GPIO_DIRECTION GPIO_OUTPUT num_bytes h1 of (failed, h2) \<Rightarrow>
            if failed then (GPIO_ERROR, h2) else (GPIO_OK, h2))"

definition gpio_disable :: "ucall env \<Rightarrow> ucall hist \<Rightarrow> int \<times> ucall hist" where
  "gpio_disable env h =
     (let num_bytes = length GPIO_INPUT in
      case open_write_close env GPIO_DIRECTION GPIO_INPUT num_bytes h of (failed, h1) \<Rightarrow>
        if failed then (GPIO_ERROR, h1)
        else
          let num_bytes = length GPIO_PIN in
          case open_write_close env GPIO_UNEXPORT GPIO_PIN num_bytes h1 of (failed, h2) \<Rightarrow>
            if failed then (GPIO_ERROR, h2) else (GPIO_OK, h2))"

definition gpio_on :: "ucall env \<Rightarrow> ucall hist \<Rightarrow> int \<times> ucall hist" where
  "gpio_on env h =
     (let num_bytes = length GPIO_ON in
      case open_write_close env GPIO_VALUE GPIO_ON num_bytes h of (failed, h1) \<Rightarrow>
        if failed then (GPIO_ERROR, h1) else (GPIO_OK, h1))"

definition gpio_off :: "ucall env \<Rightarrow> ucall hist \<Rightarrow> int \<times> ucall hist" where
  "gpio_off env h =
     (let num_bytes = length GPIO_OFF in
      case open_write_close env GPIO_VALUE GPIO_OFF num_bytes h of (failed, h1) \<Rightarrow>
        if failed then (GPIO_ERROR, h1) else (GPIO_OK, h1))"

subsection \<open>soil-monitor.c: signals and telemetry\<close>

definition signal_handler :: "ucall env \<Rightarrow> int \<Rightarrow> ucall hist \<Rightarrow> unit outcome \<times> ucall hist" where
  "signal_handler env signal h =
     (if SIGUSR1 = signal then (Continues (), h)
      else
        case gpio_disable env h of (_, h1) \<Rightarrow> (Exits EXIT_SUCCESS, h1))"

text \<open>The \<open>while\<close> loop of \<open>mqtt_client_connect\<close>, with its two local variables.\<close>

function mqtt_connect_loop :: "ucall env \<Rightarrow> int \<Rightarrow> int \<Rightarrow> ucall hist \<Rightarrow> int \<times> ucall hist" where
  "mqtt_connect_loop env conn_attempt_result conn_attempt_count h =
     (if conn_attempt_result \<noteq> MQTTCLIENT_SUCCESS \<and> conn_attempt_count < 5 then
        case sys env (Sleep 5) h of (_, h1) \<Rightarrow>
        case sys env MQTTClient_connect h1 of ((conn_attempt_result', _), h2) \<Rightarrow>
          mqtt_connect_loop env conn_attempt_result' (conn_attempt_count + 1) h2
      else (conn_attempt_result, h))"
  by pat_completeness auto
termination
  by (relation "measure (\<lambda>(env, r, conn_attempt_count, h). nat (5 - conn_attempt_count))") auto

definition mqtt_client_connect :: "ucall env \<Rightarrow> ucall hist \<Rightarrow> int \<times> ucall hist" where
  "mqtt_client_connect env h =
     (case sys env MQTTClient_connect h of ((conn_attempt_result, _), h1) \<Rightarrow>
        mqtt_connect_loop env conn_attempt_result 0 h1)"

definition mqtt_client_init :: "ucall env \<Rightarrow> string \<Rightarrow> ucall hist \<Rightarrow> unit outcome \<times> ucall hist" where
  "mqtt_client_init env mqtt_broker_uri h =
     (case sys env (MQTTClient_create mqtt_broker_uri) h of ((r, _), h1) \<Rightarrow>
        if r \<noteq> MQTTCLIENT_SUCCESS then (Exits EXIT_FAILURE, h1)
        else
          case sys env MQTTClient_setCallbacks h1 of ((r, _), h2) \<Rightarrow>
            if r \<noteq> MQTTCLIENT_SUCCESS then (Exits EXIT_FAILURE, h2)
            else
              case mqtt_client_connect env h2 of (r, h3) \<Rightarrow>
                if r \<noteq> MQTTCLIENT_SUCCESS then (Exits EXIT_FAILURE, h3)
                else (Continues (), h3))"

definition mqtt_publish_msg :: "ucall env \<Rightarrow> msg \<Rightarrow> ucall hist \<Rightarrow> ucall hist" where
  "mqtt_publish_msg env string h = snd (sys env (MQTTClient_publishMessage string) h)"

subsection \<open>soil-monitor.c: the loop of main\<close>

text \<open>
  The variables of \<open>main\<close> that the loop reads and never changes. \<open>sleep_time\<close> and
  \<open>pump_time\<close> are \<open>int\<close>s that \<open>sleep\<close> receives as \<open>unsigned int\<close>: 32-bit words.
\<close>

record config =
  target :: byte
  sleep_time :: "32 word"
  pump_time :: "32 word"
  mqtt_broker_uri :: "string option"
  soil_drv_fd :: int

text \<open>\<open>if (mqtt_broker_uri) mqtt_publish_msg(argv[0], mqtt_client, msgbuf)\<close>.\<close>

definition report :: "ucall env \<Rightarrow> config \<Rightarrow> msg \<Rightarrow> ucall hist \<Rightarrow> ucall hist" where
  "report env cfg msgbuf h =
     (if mqtt_broker_uri cfg \<noteq> None then mqtt_publish_msg env msgbuf h else h)"

text \<open>
  One pass through the body of \<open>while (1)\<close>. \<open>current\<close> is the variable that \<open>read\<close>
  fills; \<open>finish\<close> is the end of the body (the report of the sleep, and the sleep), which
  is reached with or without a pump run.
\<close>

definition loop_body :: "ucall env \<Rightarrow> config \<Rightarrow> byte \<Rightarrow> ucall hist \<Rightarrow> byte outcome \<times> ucall hist" where
  "loop_body env cfg current h =
     (case sys env (Read (soil_drv_fd cfg) 1) h of ((r, d), h1) \<Rightarrow>
        if r \<noteq> 1 then
          case gpio_disable env h1 of (_, h2) \<Rightarrow> (Exits EXIT_FAILURE, h2)
        else
          let current = fill [current] d ! 0;
              h2 = report env cfg (Current_moisture current) h1;
              finish = (\<lambda>h.
                case sys env (Sleep (sleep_time cfg)) (report env cfg (Sleeping_for (sleep_time cfg)) h)
                of (_, h') \<Rightarrow> (Continues current, h'))
          in
            if current < target cfg then
              case gpio_on env h2 of (g, h3) \<Rightarrow>
                if g = GPIO_ERROR then
                  case gpio_disable env h3 of (_, h4) \<Rightarrow> (Exits EXIT_FAILURE, h4)
                else
                  case sys env (Sleep (pump_time cfg)) (report env cfg (Pump_on (pump_time cfg)) h3)
                  of (_, h4) \<Rightarrow>
                    case gpio_off env h4 of (g, h5) \<Rightarrow>
                      if g = GPIO_ERROR then
                        case gpio_disable env h5 of (_, h6) \<Rightarrow> (Exits EXIT_FAILURE, h6)
                      else finish (report env cfg Pump_off h5)
            else finish h2)"

text \<open>
  The loop never ends by itself, so it is run for a given number of passes: the outcome
  is \<open>Exits\<close> if a pass exited the process, and \<open>Continues\<close> if the loop is still running
  after \<open>n\<close> passes.
\<close>

fun main_loop :: "nat \<Rightarrow> ucall env \<Rightarrow> config \<Rightarrow> byte \<Rightarrow> ucall hist \<Rightarrow> byte outcome \<times> ucall hist" where
  "main_loop 0 env cfg current h = (Continues current, h)"
| "main_loop (Suc n) env cfg current h =
     (case loop_body env cfg current h of
        (Continues current', h') \<Rightarrow> main_loop n env cfg current' h'
      | (Exits status, h') \<Rightarrow> (Exits status, h'))"

subsection \<open>Reading a history\<close>

text \<open>
  Modelled from the spec: the kernel's GPIO control files are not part of the repository.
  Following the spec's GpioPinState, the pin becomes exported when the pin identifier is
  written in full to a descriptor opened on the export control, and unexported when it is
  written in full to one opened on the unexport control. \<open>pin_step\<close> follows the open
  descriptors and the pin through one call; \<open>pin_exported h\<close> is the state of the pin
  after the history \<open>h\<close>, starting unexported.
\<close>

fun pin_step :: "(int \<rightharpoonup> string) \<times> bool \<Rightarrow> ucall \<times> reply \<Rightarrow> (int \<rightharpoonup> string) \<times> bool" where
  "pin_step (fds, exported) (Open path, (fd, _)) =
     (if fd = - 1 then (fds, exported) else (fds(fd \<mapsto> path), exported))"
| "pin_step (fds, exported) (Write fd s n, (w, _)) =
     (if w = int n \<and> s = GPIO_PIN \<and> fds fd = Some GPIO_EXPORT then (fds, True)
      else if w = int n \<and> s = GPIO_PIN \<and> fds fd = Some GPIO_UNEXPORT then (fds, False)
      else (fds, exported))"
| "pin_step (fds, exported) (Close fd, _) = (fds(fd := None), exported)"
| "pin_step st _ = st"

definition pin_exported :: "ucall hist \<Rightarrow> bool" where
  "pin_exported h = snd (foldl pin_step (Map.empty, False) h)"

text \<open>
  The calls of a history, the calls with their return values, the history without the
  telemetry messages, and the return values of the connection attempts in it.
\<close>

definition calls :: "'c hist \<Rightarrow> 'c list" where
  "calls h = map fst h"


fun is_publish :: "ucall \<Rightarrow> bool" where
  "is_publish (MQTTClient_publishMessage _) = True"
| "is_publish _ = False"

definition without_telemetry :: "ucall hist \<Rightarrow> ucall hist" where
  "without_telemetry h = filter (\<lambda>(c, r). \<not> is_publish c) h"

definition connect_replies :: "ucall hist \<Rightarrow> int list" where
  "connect_replies h = map (\<lambda>(c, r). fst r) (filter (\<lambda>(c, r). c = MQTTClient_connect) h)"

section \<open>Concrete environments\<close>

text \<open>
  Environments for the concrete runs below. On the sensor bus: one that completes every
  transfer and delivers the raw value 0xffff; one whose first send is not acknowledged
  (\<open>-EREMOTEIO\<close>) and that works from then on, delivering 0x0304; one where every
  transfer fails.
\<close>

definition stuck_high_env :: "kcall env" where
  "stuck_high_env h c =
     (case c of
        I2c_master_send b n \<Rightarrow> (int n, [])
      | I2c_master_recv n \<Rightarrow> (int n, [0xff, 0xff])
      | Msleep ms \<Rightarrow> (0, []))"

definition nack_once_env :: "kcall env" where
  "nack_once_env h c =
     (case c of
        I2c_master_send b n \<Rightarrow> (if h = [] then (- 121, []) else (int n, []))
      | I2c_master_recv n \<Rightarrow> (int n, [0x03, 0x04])
      | Msleep ms \<Rightarrow> (0, []))"

definition dead_bus_env :: "kcall env" where
  "dead_bus_env h c =
     (case c of
        I2c_master_send b n \<Rightarrow> (- 121, [])
      | I2c_master_recv n \<Rightarrow> (- 121, [])
      | Msleep ms \<Rightarrow> (0, []))"

text \<open>
  For the application: control files on which every step succeeds; control files on
  which the write of the input direction fails; a broker that refuses the first five
  connections and accepts the sixth; a broker that refuses all.
\<close>

definition sysfs_ok_env :: "ucall env" where
  "sysfs_ok_env h c =
     (case c of
        Open path \<Rightarrow> (3, [])
      | Write fd s n \<Rightarrow> (int n, [])
      | _ \<Rightarrow> (0, []))"

definition direction_stuck_env :: "ucall env" where
  "direction_stuck_env h c =
     (case c of
        Open path \<Rightarrow> (3, [])
      | Write fd s n \<Rightarrow> (if s = GPIO_INPUT then (- 1, []) else (int n, []))
      | _ \<Rightarrow> (0, []))"

definition late_broker_env :: "ucall env" where
  "late_broker_env h c =
     (case c of
        MQTTClient_connect \<Rightarrow> (if length (connect_replies h) < 5 then (- 1, []) else (0, []))
      | _ \<Rightarrow> (0, []))"

definition no_broker_env :: "ucall env" where
  "no_broker_env h c = (case c of MQTTClient_connect \<Rightarrow> (- 1, []) | _ \<Rightarrow> (0, []))"

text \<open>
  The scenario of the spec: target 128, no telemetry, a sensor that reads 100 and then
  150. And a sensor device whose read fails.
\<close>

definition scenario_cfg :: config where
  "scenario_cfg =
     \<lparr>target = 128, sleep_time = 3600, pump_time = 5, mqtt_broker_uri = None, soil_drv_fd = 3\<rparr>"

definition scenario_env :: "ucall env" where
  "scenario_env h c =
     (case c of
        Read fd n \<Rightarrow> (1, [if h = [] then 100 else 150])
      | Open path \<Rightarrow> (4, [])
      | Write fd s n \<Rightarrow> (int n, [])
      | _ \<Rightarrow> (0, []))"

definition read_error_env :: "ucall env" where
  "read_error_env h c =
     (case c of
        Read fd n \<Rightarrow> (- 1, [])
      | Open path \<Rightarrow> (4, [])
      | Write fd s n \<Rightarrow> (int n, [])
      | _ \<Rightarrow> (0, []))"

text \<open>
  Control files of which only the first open of the value control succeeds: every later
  open fails. The sensor reads 100.
\<close>

definition pump_stuck_env :: "ucall env" where
  "pump_stuck_env h c =
     (case c of
        Read fd n \<Rightarrow> (1, [100])
      | Open path \<Rightarrow> (if Open GPIO_VALUE \<in> set (calls h) then (- 1, []) else (4, []))
      | Write fd s n \<Rightarrow> (int n, [])
      | _ \<Rightarrow> (0, []))"

section \<open>The sensor driver: acquisition\<close>

subsection \<open>The re-read loop\<close>

declare reread_loop.simps [simp del]

lemma reread_loop_step:
  "I2C_READING_OUT_OF_BOUNDS reading \<Longrightarrow> i < I2C_MAX_REREADS \<Longrightarrow>
   reread_loop env reading i h =
     reread_loop env (fst (i2c_soil_drv_single_read_sensor env (settle env h))) (i + 1)
       (attempt env (settle env h))"
  by (subst reread_loop.simps) (simp add: settle_def attempt_def split: prod.splits)

lemma reread_loop_stop:
  "\<not> I2C_READING_OUT_OF_BOUNDS reading \<or> \<not> i < I2C_MAX_REREADS \<Longrightarrow>
   reread_loop env reading i h = (reading, h)"
  by (subst reread_loop.simps) auto

lemma attempt_start_Suc:
  "attempt_start env h (Suc k) = settle env (attempt env (attempt_start env h k))"
  by (simp add: attempt_start_def)

lemma attempt_start_0: "attempt_start env h 0 = h"
  by (simp add: attempt_start_def)

lemma reread_loop_run:
  "\<forall>j<k. I2C_READING_OUT_OF_BOUNDS (attempt_reading env h (i + j)) \<Longrightarrow>
   i + k \<le> 4 \<Longrightarrow>
   \<not> I2C_READING_OUT_OF_BOUNDS (attempt_reading env h (i + k)) \<or> i + k = 4 \<Longrightarrow>
   reread_loop env (attempt_reading env h i) (int i) (attempt env (attempt_start env h i)) =
     (attempt_reading env h (i + k), attempt env (attempt_start env h (i + k)))"
proof (induction k arbitrary: i)
  case 0
  then show ?case
    by (simp add: reread_loop_stop I2C_MAX_REREADS_def)
next
  case (Suc k)
  have oob: "I2C_READING_OUT_OF_BOUNDS (attempt_reading env h i)"
    using Suc.prems(1) by (metis add.right_neutral zero_less_Suc)
  have lt: "int i < I2C_MAX_REREADS"
    using Suc.prems(2) by (simp add: I2C_MAX_REREADS_def)
  have step: "reread_loop env (attempt_reading env h i) (int i) (attempt env (attempt_start env h i)) =
      reread_loop env (attempt_reading env h (Suc i)) (int (Suc i))
        (attempt env (attempt_start env h (Suc i)))"
    using reread_loop_step [OF oob lt]
    by (simp add: attempt_reading_def attempt_start_Suc add.commute)
  have rest: "\<forall>j<k. I2C_READING_OUT_OF_BOUNDS (attempt_reading env h (Suc i + j))"
    using Suc.prems(1) by (metis Suc_less_eq add_Suc_shift)
  show ?case
    using Suc.IH [of "Suc i"] rest Suc.prems(2,3) step by simp
qed

lemma read_sensor_run:
  assumes "\<forall>j<k. I2C_READING_OUT_OF_BOUNDS (attempt_reading env h j)"
    and "k \<le> 4"
    and "\<not> I2C_READING_OUT_OF_BOUNDS (attempt_reading env h k) \<or> k = 4"
  shows "i2c_soil_drv_read_sensor env h =
    (normalize_reading (attempt_reading env h k), attempt env (attempt_start env h k))"
proof -
  have "reread_loop env (attempt_reading env h 0) (int 0) (attempt env (attempt_start env h 0)) =
      (attempt_reading env h (0 + k), attempt env (attempt_start env h (0 + k)))"
    by (rule reread_loop_run) (use assms in simp_all)
  then show ?thesis
    by (simp add: i2c_soil_drv_read_sensor_def attempt_reading_def attempt_start_0 attempt_def
        case_prod_unfold)
qed

text \<open>Every transaction begins with one send; the delay sends nothing.\<close>

lemma transactions_attempt: "transactions (attempt env h) = Suc (transactions h)"
  by (simp add: attempt_def i2c_soil_drv_single_read_sensor_def sys_def transactions_def Let_def
      split: prod.splits)

lemma transactions_settle: "transactions (settle env h) = transactions h"
  by (simp add: settle_def sys_def transactions_def)

lemma transactions_append: "transactions (h @ new) = transactions h + transactions new"
  by (simp add: transactions_def)

lemma attempt_extends: "\<exists>new. attempt env h = h @ new"
  by (simp add: attempt_def i2c_soil_drv_single_read_sensor_def sys_def Let_def
      split: prod.splits)

lemma settle_extends: "settle env h = h @ [(Msleep I2C_MSEC_DELAY, env h (Msleep I2C_MSEC_DELAY))]"
  by (simp add: settle_def sys_def)

lemma attempt_start_extends: "\<exists>new. attempt_start env h k = h @ new"
proof (induction k)
  case 0
  then show ?case by (simp add: attempt_start_0)
next
  case (Suc k)
  then obtain new where n: "attempt_start env h k = h @ new" by blast
  obtain new' where n': "attempt env (h @ new) = (h @ new) @ new'"
    using attempt_extends by blast
  show ?case
    by (simp add: attempt_start_Suc n n' settle_extends)
qed

lemma transactions_attempt_start:
  "transactions (attempt_start env h k) = transactions h + k"
  by (induction k) (simp_all add: attempt_start_0 attempt_start_Suc transactions_settle transactions_attempt)

lemma transactions_since_attempt:
  "transactions (since h (attempt env (attempt_start env h k))) = Suc k"
proof -
  obtain new where n: "attempt_start env h k = h @ new"
    using attempt_start_extends by blast
  obtain new' where n': "attempt env (h @ new) = (h @ new) @ new'"
    using attempt_extends by blast
  have "transactions (attempt env (attempt_start env h k)) = transactions h + Suc k"
    by (simp add: transactions_attempt transactions_attempt_start)
  then show ?thesis
    by (simp add: n n' since_def transactions_append)
qed

text \<open>
  A transaction fails in transport exactly when \<open>i2c_soil_drv_single_read_sensor\<close>
  returns a negative value: a merged pair of bytes is never negative.
\<close>

lemma transport_failed_negative:
  "transport_failed env h \<longleftrightarrow> fst (i2c_soil_drv_single_read_sensor env h) < 0"
  by (auto simp: transport_failed_def i2c_soil_drv_single_read_sensor_def sys_def settle_def
      Let_def EIO_def split: prod.splits)

lemma single_stuck_high: "fst (i2c_soil_drv_single_read_sensor stuck_high_env h) = 65535"
  by (simp add: i2c_soil_drv_single_read_sensor_def stuck_high_env_def sys_def fill_def Let_def
      I2C_MSEC_DELAY_def)

lemma single_dead_bus: "transport_failed dead_bus_env h"
  by (simp add: transport_failed_def dead_bus_env_def sys_def)

subsection \<open>Failed transactions\<close>

text \<open>
  Claim C1 says that an acquisition in which a transaction fails in transport fails at
  once and makes no further transaction. The code does not do that:
  \<open>I2C_READING_OUT_OF_BOUNDS\<close> holds of every negative value, so the loop treats the
  error code of a failed transaction like an out-of-bounds reading and reads again. On a
  bus whose first send is not acknowledged and which works afterwards, the acquisition
  makes two transactions and returns the reading 100.
\<close>

theorem failed_transaction_counterexample:
  "transport_failed nack_once_env []
   \<and> i2c_soil_drv_read_sensor nack_once_env [] =
       (100,
        [(I2c_master_send [0x0f, 0x10] 2, (- 121, [])),
         (Msleep 10, (0, [])),
         (I2c_master_send [0x0f, 0x10] 2, (2, [])),
         (Msleep 10, (0, [])),
         (I2c_master_recv 2, (2, [0x03, 0x04]))])
   \<and> transactions (since [] (snd (i2c_soil_drv_read_sensor nack_once_env []))) = 2"
  by (simp add: transport_failed_def i2c_soil_drv_read_sensor_def
      i2c_soil_drv_single_read_sensor_def reread_loop.simps nack_once_env_def sys_def fill_def
      Let_def I2C_TOUCH_BASE_ADDR_def I2C_TOUCH_OFFSET_def I2C_MSEC_DELAY_def
      I2C_READING_OUT_OF_BOUNDS_def I2C_HIGH_OUT_OF_RANGE_def I2C_MAX_REREADS_def
      normalize_reading_def I2C_MIN_RAW_DRY_READING_def I2C_MAX_RAW_WET_READING_def
      transactions_def since_def settle_def)

text \<open>
  Claim C1, amended: a failed transaction counts as an out-of-bounds reading. After
  \<open>k \<le> MAX_REREADS\<close> failed transactions, each followed by the settle delay, the
  acquisition makes the next transaction; if that one yields an in-bounds reading, the
  acquisition returns its normalized value, having made \<open>k + 1\<close> transactions. If all
  \<open>MAX_REREADS + 1\<close> transactions fail, the acquisition fails with \<open>-EIO\<close> after exactly
  that many transactions.
\<close>

theorem failed_transaction_is_reread:
  assumes "k \<le> nat I2C_MAX_REREADS"
    and "\<forall>j<k. transport_failed env (attempt_start env h j)"
  shows "(\<not> I2C_READING_OUT_OF_BOUNDS (attempt_reading env h k) \<longrightarrow>
            i2c_soil_drv_read_sensor env h =
              (normalize_reading (attempt_reading env h k), attempt env (attempt_start env h k))
            \<and> transactions (since h (snd (i2c_soil_drv_read_sensor env h))) = k + 1)
       \<and> (k = nat I2C_MAX_REREADS \<and> transport_failed env (attempt_start env h k) \<longrightarrow>
            fst (i2c_soil_drv_read_sensor env h) = - EIO
            \<and> transactions (since h (snd (i2c_soil_drv_read_sensor env h))) =
                nat (I2C_MAX_REREADS + 1))"
proof -
  have k4: "k \<le> 4"
    using assms(1) by (simp add: I2C_MAX_REREADS_def)
  have oob: "\<forall>j<k. I2C_READING_OUT_OF_BOUNDS (attempt_reading env h j)"
    using assms(2)
    by (simp add: transport_failed_negative attempt_reading_def I2C_READING_OUT_OF_BOUNDS_def)
  have ok: "i2c_soil_drv_read_sensor env h =
              (normalize_reading (attempt_reading env h k), attempt env (attempt_start env h k))
            \<and> transactions (since h (snd (i2c_soil_drv_read_sensor env h))) = k + 1"
    if "\<not> I2C_READING_OUT_OF_BOUNDS (attempt_reading env h k)"
  proof -
    have "i2c_soil_drv_read_sensor env h =
        (normalize_reading (attempt_reading env h k), attempt env (attempt_start env h k))"
      by (rule read_sensor_run) (use oob k4 that in simp_all)
    then show ?thesis
      by (simp add: transactions_since_attempt)
  qed
  have bad: "fst (i2c_soil_drv_read_sensor env h) = - EIO
            \<and> transactions (since h (snd (i2c_soil_drv_read_sensor env h))) =
                nat (I2C_MAX_REREADS + 1)"
    if "k = nat I2C_MAX_REREADS" and "transport_failed env (attempt_start env h k)"
  proof -
    have k: "k = 4"
      using that(1) by (simp add: I2C_MAX_REREADS_def)
    have last: "I2C_READING_OUT_OF_BOUNDS (attempt_reading env h k)"
      using that(2)
      by (simp add: transport_failed_negative attempt_reading_def I2C_READING_OUT_OF_BOUNDS_def)
    have "i2c_soil_drv_read_sensor env h =
        (normalize_reading (attempt_reading env h k), attempt env (attempt_start env h k))"
      by (rule read_sensor_run) (use oob k in simp_all)
    then show ?thesis
      using last by (simp add: normalize_reading_def transactions_since_attempt k I2C_MAX_REREADS_def)
  qed
  from ok bad show ?thesis by blast
qed

theorem failed_transaction_is_reread_witness:
  "(1::nat) \<le> nat I2C_MAX_REREADS
   \<and> transport_failed nack_once_env (attempt_start nack_once_env [] 0)
   \<and> \<not> I2C_READING_OUT_OF_BOUNDS (attempt_reading nack_once_env [] 1)
   \<and> fst (i2c_soil_drv_read_sensor nack_once_env []) = 100
   \<and> transactions (since [] (snd (i2c_soil_drv_read_sensor nack_once_env []))) = 2
   \<and> transport_failed dead_bus_env (attempt_start dead_bus_env [] 0)
   \<and> transport_failed dead_bus_env (attempt_start dead_bus_env [] 1)
   \<and> transport_failed dead_bus_env (attempt_start dead_bus_env [] 2)
   \<and> transport_failed dead_bus_env (attempt_start dead_bus_env [] 3)
   \<and> transport_failed dead_bus_env (attempt_start dead_bus_env [] 4)
   \<and> fst (i2c_soil_drv_read_sensor dead_bus_env []) = - EIO
   \<and> transactions (since [] (snd (i2c_soil_drv_read_sensor dead_bus_env []))) = 5"
proof -
  have a1: "(1::nat) \<le> nat I2C_MAX_REREADS"
    by (simp add: I2C_MAX_REREADS_def)
  have a2: "\<forall>j<1. transport_failed nack_once_env (attempt_start nack_once_env [] j)"
    by (simp add: attempt_start_0 transport_failed_def nack_once_env_def sys_def)
  have r1: "attempt_reading nack_once_env [] 1 = 772"
    by (simp add: attempt_reading_def attempt_start_def attempt_def settle_def
        i2c_soil_drv_single_read_sensor_def nack_once_env_def sys_def fill_def Let_def)
  have a3: "\<not> I2C_READING_OUT_OF_BOUNDS (attempt_reading nack_once_env [] 1)"
    using r1 by (simp add: I2C_READING_OUT_OF_BOUNDS_def I2C_HIGH_OUT_OF_RANGE_def)
  have b2: "\<forall>j. transport_failed dead_bus_env (attempt_start dead_bus_env [] j)"
    by (simp add: single_dead_bus)
  from failed_transaction_is_reread [OF a1 a2] a3
  have e: "i2c_soil_drv_read_sensor nack_once_env [] =
      (normalize_reading (attempt_reading nack_once_env [] 1),
       attempt nack_once_env (attempt_start nack_once_env [] 1))"
    and f: "transactions (since [] (snd (i2c_soil_drv_read_sensor nack_once_env []))) = 1 + 1"
    by blast+
  have c1: "fst (i2c_soil_drv_read_sensor nack_once_env []) = normalize_reading 772"
    unfolding e r1 by simp
  have c2: "transactions (since [] (snd (i2c_soil_drv_read_sensor nack_once_env []))) = 2"
    using f by simp
  have n: "normalize_reading 772 = 100"
    by (simp add: normalize_reading_def I2C_READING_OUT_OF_BOUNDS_def I2C_HIGH_OUT_OF_RANGE_def
        I2C_MIN_RAW_DRY_READING_def I2C_MAX_RAW_WET_READING_def)
  from failed_transaction_is_reread [of "nat I2C_MAX_REREADS" dead_bus_env "[]"] b2
  have "fst (i2c_soil_drv_read_sensor dead_bus_env []) = - EIO
     \<and> transactions (since [] (snd (i2c_soil_drv_read_sensor dead_bus_env []))) =
         nat (I2C_MAX_REREADS + 1)"
    by blast
  then have d: "fst (i2c_soil_drv_read_sensor dead_bus_env []) = - EIO
     \<and> transactions (since [] (snd (i2c_soil_drv_read_sensor dead_bus_env []))) = 5"
    by (simp add: I2C_MAX_REREADS_def)
  show ?thesis
    using a1 a2 a3 c1 c2 n b2 d by simp
qed

subsection \<open>Readings permanently out of bounds\<close>

text \<open>
  Claim C2: when every transaction of an acquisition (the first one and each of the
  \<open>MAX_REREADS\<close> re-reads) yields an out-of-bounds value, the acquisition makes exactly
  \<open>MAX_REREADS + 1\<close> transactions, each re-read preceded by the settle delay, and then
  returns \<open>-EIO\<close>: an error, never a reading.
\<close>

theorem permanently_out_of_bounds:
  assumes "\<forall>k \<le> nat I2C_MAX_REREADS. I2C_READING_OUT_OF_BOUNDS (attempt_reading env h k)"
  shows "fst (i2c_soil_drv_read_sensor env h) = - EIO
    \<and> transactions (since h (snd (i2c_soil_drv_read_sensor env h))) = nat (I2C_MAX_REREADS + 1)
    \<and> snd (i2c_soil_drv_read_sensor env h) =
        attempt env (settle env (attempt env (settle env (attempt env (settle env
          (attempt env (settle env (attempt env h))))))))"
proof -
  have all: "\<forall>j<4. I2C_READING_OUT_OF_BOUNDS (attempt_reading env h j)"
    and last: "I2C_READING_OUT_OF_BOUNDS (attempt_reading env h 4)"
    using assms by (simp_all add: I2C_MAX_REREADS_def)
  have run: "i2c_soil_drv_read_sensor env h =
      (normalize_reading (attempt_reading env h 4), attempt env (attempt_start env h 4))"
    by (rule read_sensor_run) (use all in simp_all)
  have hist: "attempt_start env h 4 =
      settle env (attempt env (settle env (attempt env (settle env
          (attempt env (settle env (attempt env h)))))))"
    by (simp add: attempt_start_def eval_nat_numeral)
  show ?thesis
    using last by (simp add: run normalize_reading_def transactions_since_attempt I2C_MAX_REREADS_def flip: hist)
qed

theorem permanently_out_of_bounds_witness:
  "I2C_READING_OUT_OF_BOUNDS (attempt_reading stuck_high_env [] 0)
   \<and> I2C_READING_OUT_OF_BOUNDS (attempt_reading stuck_high_env [] 1)
   \<and> I2C_READING_OUT_OF_BOUNDS (attempt_reading stuck_high_env [] 2)
   \<and> I2C_READING_OUT_OF_BOUNDS (attempt_reading stuck_high_env [] 3)
   \<and> I2C_READING_OUT_OF_BOUNDS (attempt_reading stuck_high_env [] 4)
   \<and> fst (i2c_soil_drv_read_sensor stuck_high_env []) = - EIO
   \<and> transactions (since [] (snd (i2c_soil_drv_read_sensor stuck_high_env []))) = 5"
proof -
  have hyp: "\<forall>k \<le> nat I2C_MAX_REREADS. I2C_READING_OUT_OF_BOUNDS (attempt_reading stuck_high_env [] k)"
    by (simp add: attempt_reading_def single_stuck_high I2C_READING_OUT_OF_BOUNDS_def
        I2C_HIGH_OUT_OF_RANGE_def)
  note r = permanently_out_of_bounds [OF hyp]
  have each: "I2C_READING_OUT_OF_BOUNDS (attempt_reading stuck_high_env [] k)" for k
    by (simp add: attempt_reading_def single_stuck_high I2C_READING_OUT_OF_BOUNDS_def
        I2C_HIGH_OUT_OF_RANGE_def)
  show ?thesis
    using each r [THEN conjunct1] r [THEN conjunct2, THEN conjunct1]
    by (simp add: I2C_MAX_REREADS_def)
qed

subsection \<open>Normalization\<close>

text \<open>
  Claim C3: on the window from \<open>MIN_RAW\<close> to \<open>MAX_RAW\<close> the normalization is
  non-decreasing, it maps \<open>MIN_RAW\<close> to 0 and \<open>MAX_RAW\<close> to 255, an in-bounds raw value
  below the window maps to 0 and one above it to 255, and every in-bounds raw value maps
  into 0..255. (The last conjunct adds that it is non-decreasing on all in-bounds values.)
\<close>

theorem normalize_window:
  "(\<forall>r s. I2C_MIN_RAW_DRY_READING \<le> r \<and> r \<le> s \<and> s \<le> I2C_MAX_RAW_WET_READING
      \<longrightarrow> normalize_reading r \<le> normalize_reading s)
   \<and> normalize_reading I2C_MIN_RAW_DRY_READING = 0
   \<and> normalize_reading I2C_MAX_RAW_WET_READING = 255
   \<and> (\<forall>r. \<not> I2C_READING_OUT_OF_BOUNDS r \<and> r < I2C_MIN_RAW_DRY_READING \<longrightarrow> normalize_reading r = 0)
   \<and> (\<forall>r. \<not> I2C_READING_OUT_OF_BOUNDS r \<and> r > I2C_MAX_RAW_WET_READING \<longrightarrow> normalize_reading r = 255)
   \<and> (\<forall>r. \<not> I2C_READING_OUT_OF_BOUNDS r \<longrightarrow> 0 \<le> normalize_reading r \<and> normalize_reading r \<le> 255)
   \<and> (\<forall>r s. \<not> I2C_READING_OUT_OF_BOUNDS r \<and> \<not> I2C_READING_OUT_OF_BOUNDS s \<and> r \<le> s
      \<longrightarrow> normalize_reading r \<le> normalize_reading s)"
  by (simp add: normalize_reading_def I2C_READING_OUT_OF_BOUNDS_def I2C_HIGH_OUT_OF_RANGE_def
      I2C_MIN_RAW_DRY_READING_def I2C_MAX_RAW_WET_READING_def I2C_MIN_DRY_READING_def
      I2C_MAX_WET_READING_def EIO_def)

theorem normalize_window_witness:
  "I2C_MIN_RAW_DRY_READING \<le> 700 \<and> (700::int) \<le> 800 \<and> 800 \<le> I2C_MAX_RAW_WET_READING
   \<and> normalize_reading 700 \<le> normalize_reading 800
   \<and> \<not> I2C_READING_OUT_OF_BOUNDS 100 \<and> 100 < I2C_MIN_RAW_DRY_READING \<and> normalize_reading 100 = 0
   \<and> \<not> I2C_READING_OUT_OF_BOUNDS 4000 \<and> 4000 > I2C_MAX_RAW_WET_READING \<and> normalize_reading 4000 = 255"
proof -
  have a: "I2C_MIN_RAW_DRY_READING \<le> 700 \<and> (700::int) \<le> 800 \<and> 800 \<le> I2C_MAX_RAW_WET_READING"
    by (simp add: I2C_MIN_RAW_DRY_READING_def I2C_MAX_RAW_WET_READING_def)
  have b: "\<not> I2C_READING_OUT_OF_BOUNDS 100 \<and> 100 < I2C_MIN_RAW_DRY_READING"
    by (simp add: I2C_READING_OUT_OF_BOUNDS_def I2C_HIGH_OUT_OF_RANGE_def I2C_MIN_RAW_DRY_READING_def)
  have c: "\<not> I2C_READING_OUT_OF_BOUNDS 4000 \<and> 4000 > I2C_MAX_RAW_WET_READING"
    by (simp add: I2C_READING_OUT_OF_BOUNDS_def I2C_HIGH_OUT_OF_RANGE_def I2C_MAX_RAW_WET_READING_def)
  from normalize_window have
    "normalize_reading 700 \<le> normalize_reading 800" "normalize_reading 100 = 0" "normalize_reading 4000 = 255"
    using a b c by blast+
  with a b c show ?thesis by blast
qed

section \<open>The sensor driver: the device's write and read\<close>

subsection \<open>Writes that are not commands\<close>

lemma strlen_cmds: "strlen SIM_ON_CMD = 6" "strlen SIM_OFF_CMD = 7"
  by (simp_all add: strlen_def SIM_ON_CMD_def SIM_OFF_CMD_def)

lemma length_cmds: "length SIM_ON_CMD = 6" "length SIM_OFF_CMD = 7"
  by (simp_all add: SIM_ON_CMD_def SIM_OFF_CMD_def)

lemma no_nul_cmds: "0 \<notin> set SIM_ON_CMD" "0 \<notin> set SIM_OFF_CMD"
  by (simp_all add: SIM_ON_CMD_def SIM_OFF_CMD_def)

lemma strncmp_mismatch:
  "take j a \<noteq> take j b \<Longrightarrow> j \<le> n \<Longrightarrow> j \<le> length a \<Longrightarrow> j \<le> length b \<Longrightarrow>
   0 \<notin> set (take j b) \<Longrightarrow> strncmp a b n \<noteq> 0"
proof (induction n arbitrary: a b j)
  case 0
  then show ?case by simp
next
  case (Suc n)
  from Suc.prems(1) obtain j' where j: "j = Suc j'"
    by (cases j) auto
  from Suc.prems(3,4) obtain x xs y ys where s: "a = x # xs" "b = y # ys"
    unfolding j by (cases a; cases b) auto
  show ?case
  proof (cases "x = y")
    case False
    then show ?thesis by (auto simp: s Let_def dest: word_uint_eqI)
  next
    case True
    have y0: "y \<noteq> 0"
      using Suc.prems(5) unfolding j s by auto
    have d: "take j' xs \<noteq> take j' ys"
      using Suc.prems(1) True unfolding j s by simp
    have l: "j' \<le> n" "j' \<le> length xs" "j' \<le> length ys"
      using Suc.prems(2,3,4) unfolding j s by simp_all
    have z: "0 \<notin> set (take j' ys)"
      using Suc.prems(5) unfolding j s by simp
    have "strncmp xs ys n \<noteq> 0"
      by (rule Suc.IH [OF d l z])
    then show ?thesis using True y0 by (simp add: s Let_def)
  qed
qed

lemma agree_prefix:
  "take (min (length p) (length q)) p = take (min (length p) (length q)) q \<Longrightarrow>
   prefix p q \<or> prefix q p"
proof (cases "length p \<le> length q")
  case True
  assume "take (min (length p) (length q)) p = take (min (length p) (length q)) q"
  with True have "p = take (length p) q" by (simp add: min_def)
  then show ?thesis by (metis take_is_prefix)
next
  case False
  assume "take (min (length p) (length q)) p = take (min (length p) (length q)) q"
  with False have "take (length q) p = q" by (simp add: min_def)
  then show ?thesis by (metis take_is_prefix)
qed

lemma strncmp_not_command:
  assumes "\<not> prefix cmd p" and "\<not> prefix p cmd" and "0 \<notin> set cmd" and "length cmd \<le> 8"
  shows "strncmp (take (min 8 (length p)) p @ rest) cmd (length cmd) \<noteq> 0"
proof -
  let ?j = "min (length p) (length cmd)"
  have d: "take ?j p \<noteq> take ?j cmd"
    using assms(1,2) agree_prefix [of p cmd] by blast
  have j8: "?j \<le> min 8 (length p)"
    using assms(4) by simp
  have "take ?j (take (min 8 (length p)) p @ rest) = take ?j p"
    using j8 by (simp add: min_def)
  with d have d': "take ?j (take (min 8 (length p)) p @ rest) \<noteq> take ?j cmd"
    by simp
  have z: "0 \<notin> set (take ?j cmd)"
    using assms(3) by (meson in_set_takeD)
  show ?thesis
    by (rule strncmp_mismatch [OF d' _ _ _ z]) (use j8 in simp_all)
qed

text \<open>
  Claim C5 says that a write of two or more bytes whose payload is neither control string
  leaves the state unchanged. The code compares only the first \<open>strlen\<close> bytes of each
  control string, so a payload that continues after a control string is a command too:
  the payload \<open>sim-on\<close> followed by a newline (seven bytes) turns simulation on.
\<close>

theorem unrecognized_write_counterexample:
  "2 \<le> length (SIM_ON_CMD @ [0x0a])
   \<and> SIM_ON_CMD @ [0x0a] \<noteq> SIM_ON_CMD \<and> SIM_ON_CMD @ [0x0a] \<noteq> SIM_OFF_CMD
   \<and> i2c_soil_drv_write \<lparr>use_simulation = 0, sim_data = 0\<rparr> (replicate 8 0)
        (SIM_ON_CMD @ [0x0a]) (length (SIM_ON_CMD @ [0x0a])) =
      (7, \<lparr>use_simulation = 1, sim_data = 0\<rparr>)"
  by (simp add: i2c_soil_drv_write_def copy_from_user_def MAX_CMD_BUF_SIZE_def SIM_ON_CMD_def
      SIM_OFF_CMD_def strlen_def Let_def)

text \<open>
  Claim C5, amended: a write of two or more bytes whose payload neither begins with one
  of the two control strings nor is itself the beginning of one leaves \<open>use_simulation\<close>
  and \<open>sim_data\<close> unchanged and returns its full length, whatever the command buffer
  held before.
\<close>

theorem unrecognized_write_ignored:
  assumes "2 \<le> length p"
    and "\<not> prefix SIM_ON_CMD p" and "\<not> prefix p SIM_ON_CMD"
    and "\<not> prefix SIM_OFF_CMD p" and "\<not> prefix p SIM_OFF_CMD"
  shows "i2c_soil_drv_write dev cmd_buf p (length p) = (int (length p), dev)"
proof -
  have on: "strncmp (take (min 8 (length p)) p @ drop (min 8 (length p)) cmd_buf) SIM_ON_CMD 6 \<noteq> 0"
    using strncmp_not_command [OF assms(2,3) no_nul_cmds(1)] by (simp add: length_cmds)
  have off: "strncmp (take (min 8 (length p)) p @ drop (min 8 (length p)) cmd_buf) SIM_OFF_CMD 7 \<noteq> 0"
    using strncmp_not_command [OF assms(4,5) no_nul_cmds(2)] by (simp add: length_cmds)
  have c: "copy_from_user cmd_buf p (min MAX_CMD_BUF_SIZE (length p)) =
      (0, take (min 8 (length p)) p @ drop (min 8 (length p)) cmd_buf)"
    by (simp add: copy_from_user_def MAX_CMD_BUF_SIZE_def min_def)
  have n1: "1 \<noteq> length p"
    using assms(1) by simp
  show ?thesis
    using on off n1 by (simp add: i2c_soil_drv_write_def c strlen_cmds)
qed

theorem unrecognized_write_ignored_witness:
  "2 \<le> length (map of_char ''hello'' :: byte list)
   \<and> \<not> prefix SIM_ON_CMD (map of_char ''hello'') \<and> \<not> prefix (map of_char ''hello'') SIM_ON_CMD
   \<and> \<not> prefix SIM_OFF_CMD (map of_char ''hello'') \<and> \<not> prefix (map of_char ''hello'') SIM_OFF_CMD
   \<and> i2c_soil_drv_write \<lparr>use_simulation = 1, sim_data = 7\<rparr> (replicate 8 0)
        (map of_char ''hello'') (length (map of_char ''hello'' :: byte list)) =
      (5, \<lparr>use_simulation = 1, sim_data = 7\<rparr>)"
proof -
  have h: "2 \<le> length (map of_char ''hello'' :: byte list)"
    "\<not> prefix SIM_ON_CMD (map of_char ''hello'')" "\<not> prefix (map of_char ''hello'') SIM_ON_CMD"
    "\<not> prefix SIM_OFF_CMD (map of_char ''hello'')" "\<not> prefix (map of_char ''hello'') SIM_OFF_CMD"
    by (simp_all add: SIM_ON_CMD_def SIM_OFF_CMD_def)
  show ?thesis
    using h unrecognized_write_ignored [OF h, of "\<lparr>use_simulation = 1, sim_data = 7\<rparr>" "replicate 8 0"]
    by simp
qed

subsection \<open>Reads\<close>

text \<open>
  Claim C10: the requested count has no influence on a read, and a read that succeeds
  (returns a non-negative value) returns 1 and changes exactly the first byte of the
  user's buffer, to the simulated value or to the normalized reading.
\<close>

theorem read_one_byte:
  "i2c_soil_drv_read env dev buf count h = i2c_soil_drv_read env dev buf 1 h
   \<and> (0 \<le> fst (i2c_soil_drv_read env dev buf count h) \<longrightarrow>
        buf \<noteq> []
        \<and> i2c_soil_drv_read env dev buf count h =
            (1,
             (if use_simulation dev \<noteq> 0 then sim_data dev
              else word_of_int (fst (i2c_soil_drv_read_sensor env h))) # tl buf,
             (if use_simulation dev \<noteq> 0 then h else snd (i2c_soil_drv_read_sensor env h))))"
  by (cases buf)
    (auto simp: i2c_soil_drv_read_def copy_to_user_def Let_def EFAULT_def split: prod.splits)

theorem read_one_byte_witness:
  "0 \<le> fst (i2c_soil_drv_read stuck_high_env \<lparr>use_simulation = 1, sim_data = 42\<rparr> [0, 0, 0, 0] 4 [])
   \<and> i2c_soil_drv_read stuck_high_env \<lparr>use_simulation = 1, sim_data = 42\<rparr> [0, 0, 0, 0] 4 [] =
       (1, [42, 0, 0, 0], [])"
proof -
  have h: "0 \<le> fst (i2c_soil_drv_read stuck_high_env \<lparr>use_simulation = 1, sim_data = 42\<rparr> [0, 0, 0, 0] 4 [])"
    by (simp add: i2c_soil_drv_read_def copy_to_user_def Let_def)
  show ?thesis
    using h read_one_byte [of stuck_high_env "\<lparr>use_simulation = 1, sim_data = 42\<rparr>" "[0, 0, 0, 0]" 4 "[]"]
    by simp
qed

section \<open>The application: the pump's pin\<close>

subsection \<open>Disabling the pin\<close>

lemmas gpio_names = GPIO_PIN_def GPIO_DIRECTORY_def GPIO_EXPORT_def GPIO_UNEXPORT_def
  GPIO_DIRECTION_def GPIO_INPUT_def GPIO_OUTPUT_def GPIO_VALUE_def GPIO_ON_def GPIO_OFF_def

lemma gpio_disable_extends: "\<exists>new. snd (gpio_disable env h) = h @ new"
  by (auto simp: gpio_disable_def open_write_close_def sys_def Let_def split: prod.splits)

lemma gpio_disable_no_value:
  "Open GPIO_VALUE \<notin> set (calls (since h (snd (gpio_disable env h))))"
  by (auto simp: gpio_disable_def open_write_close_def sys_def since_def calls_def Let_def
      gpio_names split: prod.splits)

lemma gpio_disable_unexports:
  "fst (gpio_disable env h) = GPIO_OK \<Longrightarrow> \<not> pin_exported (snd (gpio_disable env h))"
  by (cases "foldl pin_step (Map.empty, False) h")
     (auto simp: gpio_disable_def open_write_close_def sys_def pin_exported_def Let_def
      gpio_names GPIO_ERROR_def GPIO_OK_def split: prod.splits if_splits)

lemma enable_ok: "gpio_enable sysfs_ok_env [] =
   (GPIO_OK,
    [(Open GPIO_EXPORT, (3, [])), (Write 3 GPIO_PIN 2, (2, [])), (Close 3, (0, [])),
     (Open GPIO_DIRECTION, (3, [])), (Write 3 GPIO_OUTPUT 3, (3, [])), (Close 3, (0, []))])"
  by (simp add: gpio_enable_def open_write_close_def sys_def sysfs_ok_env_def Let_def
      GPIO_PIN_def GPIO_OUTPUT_def GPIO_OK_def)



subsection \<open>Shutdown signals\<close>

text \<open>
  Claim C8 says that after a terminal signal the pin is left unexported when the process
  exits. The handler ignores the result of \<open>gpio_disable\<close>: when the write of the input
  direction fails, the unexport control is never written, and the process exits
  successfully with the pin still exported.
\<close>

theorem shutdown_signal_counterexample:
  "gpio_enable direction_stuck_env [] =
     (GPIO_OK,
      [(Open GPIO_EXPORT, (3, [])), (Write 3 GPIO_PIN 2, (2, [])), (Close 3, (0, [])),
       (Open GPIO_DIRECTION, (3, [])), (Write 3 GPIO_OUTPUT 3, (3, [])), (Close 3, (0, []))])
   \<and> pin_exported (snd (gpio_enable direction_stuck_env []))
   \<and> signal_handler direction_stuck_env SIGTERM (snd (gpio_enable direction_stuck_env [])) =
       (Exits EXIT_SUCCESS,
        snd (gpio_enable direction_stuck_env []) @
        [(Open GPIO_DIRECTION, (3, [])), (Write 3 GPIO_INPUT 2, (- 1, []))])
   \<and> pin_exported
        (snd (signal_handler direction_stuck_env SIGTERM (snd (gpio_enable direction_stuck_env []))))"
  by (simp add: gpio_enable_def gpio_disable_def signal_handler_def open_write_close_def sys_def
      direction_stuck_env_def Let_def pin_exported_def gpio_names GPIO_OK_def GPIO_ERROR_def
      SIGTERM_def SIGUSR1_def)

text \<open>
  Claim C8, amended: on SIGINT or SIGTERM, at any point of the run (any history), the
  handler attempts \<open>gpio_disable\<close>, ignores its result, and the process exits
  successfully; the pin is left unexported when that \<open>gpio_disable\<close> succeeds.
\<close>

theorem shutdown_signal:
  assumes "signal = SIGINT \<or> signal = SIGTERM"
  shows "signal_handler env signal h = (Exits EXIT_SUCCESS, snd (gpio_disable env h))
    \<and> (fst (gpio_disable env h) = GPIO_OK \<longrightarrow> \<not> pin_exported (snd (signal_handler env signal h)))"
  using assms gpio_disable_unexports [of env h]
  by (auto simp: signal_handler_def SIGINT_def SIGTERM_def SIGUSR1_def split: prod.splits)

theorem shutdown_signal_witness:
  "(SIGTERM = SIGINT \<or> SIGTERM = SIGTERM)
   \<and> fst (gpio_disable sysfs_ok_env (snd (gpio_enable sysfs_ok_env []))) = GPIO_OK
   \<and> pin_exported (snd (gpio_enable sysfs_ok_env []))
   \<and> fst (signal_handler sysfs_ok_env SIGTERM (snd (gpio_enable sysfs_ok_env []))) = Exits EXIT_SUCCESS
   \<and> \<not> pin_exported (snd (signal_handler sysfs_ok_env SIGTERM (snd (gpio_enable sysfs_ok_env []))))"
proof -
  have s: "SIGTERM = SIGINT \<or> SIGTERM = SIGTERM"
    by simp
  have ok: "fst (gpio_disable sysfs_ok_env (snd (gpio_enable sysfs_ok_env []))) = GPIO_OK"
    by (simp add: enable_ok gpio_disable_def open_write_close_def sys_def sysfs_ok_env_def Let_def
      GPIO_PIN_def GPIO_INPUT_def GPIO_OK_def)
  have ex: "pin_exported (snd (gpio_enable sysfs_ok_env []))"
    by (simp add: enable_ok pin_exported_def gpio_names)
  note r = shutdown_signal [OF s, of sysfs_ok_env "snd (gpio_enable sysfs_ok_env [])"]
  from r ok have un:
    "\<not> pin_exported (snd (signal_handler sysfs_ok_env SIGTERM (snd (gpio_enable sysfs_ok_env []))))"
    by blast
  from r have e:
    "fst (signal_handler sysfs_ok_env SIGTERM (snd (gpio_enable sysfs_ok_env []))) = Exits EXIT_SUCCESS"
    by simp
  from s ok ex e un show ?thesis
    by blast
qed

section \<open>The application: connecting to the broker\<close>

declare mqtt_connect_loop.simps [simp del]

lemma mqtt_connect_loop_bounded:
  "mqtt_connect_loop env r cnt h = (res, h') \<Longrightarrow> 0 \<le> cnt \<Longrightarrow> cnt \<le> 5 \<Longrightarrow>
   \<exists>new. h' = h @ new
     \<and> calls new = concat (replicate (length (connect_replies new)) [Sleep 5, MQTTClient_connect])
     \<and> int (length (connect_replies new)) \<le> 5 - cnt
     \<and> res = last (r # connect_replies new)
     \<and> (\<forall>x \<in> set (butlast (r # connect_replies new)). x \<noteq> MQTTCLIENT_SUCCESS)
     \<and> (res \<noteq> MQTTCLIENT_SUCCESS \<longrightarrow> int (length (connect_replies new)) = 5 - cnt)"
proof (induction env r cnt h arbitrary: res h' rule: mqtt_connect_loop.induct)
  case (1 env r cnt h)
  show ?case
  proof (cases "r \<noteq> MQTTCLIENT_SUCCESS \<and> cnt < 5")
    case False
    with "1.prems" have "res = r" "h' = h" "r \<noteq> MQTTCLIENT_SUCCESS \<longrightarrow> cnt = 5"
      by (auto simp: mqtt_connect_loop.simps)
    then show ?thesis
      using "1.prems"(3) by (simp add: calls_def connect_replies_def)
  next
    case True
    let ?h1 = "h @ [(Sleep 5, env h (Sleep 5))]"
    let ?r' = "fst (env ?h1 MQTTClient_connect)"
    let ?ev = "[(Sleep 5, env h (Sleep 5)), (MQTTClient_connect, env ?h1 MQTTClient_connect)]"
    have rec: "mqtt_connect_loop env ?r' (cnt + 1) (h @ ?ev) = (res, h')"
      using "1.prems"(1) True
      by (subst (asm) mqtt_connect_loop.simps) (simp add: sys_def split: prod.splits)
    have "\<exists>new. h' = (h @ ?ev) @ new
     \<and> calls new = concat (replicate (length (connect_replies new)) [Sleep 5, MQTTClient_connect])
     \<and> int (length (connect_replies new)) \<le> 5 - (cnt + 1)
     \<and> res = last (?r' # connect_replies new)
     \<and> (\<forall>x \<in> set (butlast (?r' # connect_replies new)). x \<noteq> MQTTCLIENT_SUCCESS)
     \<and> (res \<noteq> MQTTCLIENT_SUCCESS \<longrightarrow> int (length (connect_replies new)) = 5 - (cnt + 1))"
      using "1.IH" [of "env h (Sleep 5)" ?h1 "env ?h1 MQTTClient_connect" "h @ ?ev" ?r'
          "snd (env ?h1 MQTTClient_connect)" res h'] True rec "1.prems"(2,3)
      by (simp add: sys_def)
    then obtain new where n: "h' = (h @ ?ev) @ new"
      "calls new = concat (replicate (length (connect_replies new)) [Sleep 5, MQTTClient_connect])"
      "int (length (connect_replies new)) \<le> 5 - (cnt + 1)"
      "res = last (?r' # connect_replies new)"
      "\<forall>x \<in> set (butlast (?r' # connect_replies new)). x \<noteq> MQTTCLIENT_SUCCESS"
      "res \<noteq> MQTTCLIENT_SUCCESS \<longrightarrow> int (length (connect_replies new)) = 5 - (cnt + 1)"
      by blast
    have cr: "connect_replies (?ev @ new) = ?r' # connect_replies new"
      by (simp add: connect_replies_def case_prod_unfold)
    have cl: "calls (?ev @ new) = [Sleep 5, MQTTClient_connect] @ calls new"
      by (simp add: calls_def)
    show ?thesis
    proof (intro exI [of _ "?ev @ new"] conjI)
      show "h' = h @ ?ev @ new" using n(1) by simp
      show "calls (?ev @ new) =
          concat (replicate (length (connect_replies (?ev @ new))) [Sleep 5, MQTTClient_connect])"
        unfolding cr cl n(2) by simp
      show "int (length (connect_replies (?ev @ new))) \<le> 5 - cnt"
        unfolding cr using n(3) by simp
      show "res = last (r # connect_replies (?ev @ new))"
        unfolding cr using n(4) by simp
      show "\<forall>x \<in> set (butlast (r # connect_replies (?ev @ new))). x \<noteq> MQTTCLIENT_SUCCESS"
        unfolding cr using n(5) True by (auto split: if_splits)
      show "res \<noteq> MQTTCLIENT_SUCCESS \<longrightarrow> int (length (connect_replies (?ev @ new))) = 5 - cnt"
        unfolding cr using n(6) by simp
    qed
  qed
qed

lemma mqtt_client_connect_run:
  "\<exists>new. snd (mqtt_client_connect env h) = h @ new
     \<and> calls new =
         MQTTClient_connect #
         concat (replicate (length (connect_replies new) - 1) [Sleep 5, MQTTClient_connect])
     \<and> 1 \<le> length (connect_replies new) \<and> length (connect_replies new) \<le> 6
     \<and> fst (mqtt_client_connect env h) = last (connect_replies new)
     \<and> (\<forall>x \<in> set (butlast (connect_replies new)). x \<noteq> MQTTCLIENT_SUCCESS)
     \<and> (fst (mqtt_client_connect env h) \<noteq> MQTTCLIENT_SUCCESS \<longrightarrow> length (connect_replies new) = 6)"
proof -
  let ?e = "(MQTTClient_connect, env h MQTTClient_connect)"
  let ?r = "fst (env h MQTTClient_connect)"
  obtain res h' where l: "mqtt_connect_loop env ?r 0 (h @ [?e]) = (res, h')"
    by (cases "mqtt_connect_loop env ?r 0 (h @ [?e])") blast
  then have c: "mqtt_client_connect env h = (res, h')"
    by (simp add: mqtt_client_connect_def sys_def case_prod_unfold)
  from mqtt_connect_loop_bounded [OF l]
  obtain new where n: "h' = (h @ [?e]) @ new"
      "calls new = concat (replicate (length (connect_replies new)) [Sleep 5, MQTTClient_connect])"
      "int (length (connect_replies new)) \<le> 5 - 0"
      "res = last (?r # connect_replies new)"
      "\<forall>x \<in> set (butlast (?r # connect_replies new)). x \<noteq> MQTTCLIENT_SUCCESS"
      "res \<noteq> MQTTCLIENT_SUCCESS \<longrightarrow> int (length (connect_replies new)) = 5 - 0"
    by auto
  have cr: "connect_replies (?e # new) = ?r # connect_replies new"
    by (simp add: connect_replies_def case_prod_unfold)
  have cl: "calls (?e # new) = MQTTClient_connect # calls new"
    by (simp add: calls_def)
  show ?thesis
  proof (intro exI [of _ "?e # new"] conjI)
    show "snd (mqtt_client_connect env h) = h @ ?e # new"
      by (simp add: c n(1))
    show "calls (?e # new) = MQTTClient_connect #
         concat (replicate (length (connect_replies (?e # new)) - 1) [Sleep 5, MQTTClient_connect])"
      unfolding cr cl n(2) by simp
    show "1 \<le> length (connect_replies (?e # new))"
      unfolding cr by simp
    show "length (connect_replies (?e # new)) \<le> 6"
      unfolding cr using n(3) by simp
    show "fst (mqtt_client_connect env h) = last (connect_replies (?e # new))"
      unfolding cr c using n(4) by simp
    show "\<forall>x \<in> set (butlast (connect_replies (?e # new))). x \<noteq> MQTTCLIENT_SUCCESS"
      unfolding cr using n(5) by simp
    show "fst (mqtt_client_connect env h) \<noteq> MQTTCLIENT_SUCCESS \<longrightarrow>
        length (connect_replies (?e # new)) = 6"
      unfolding cr c using n(6) by simp
  qed
qed

lemma mqtt_client_init_run:
  "(fst (mqtt_client_init env uri h) = Continues () \<or>
    fst (mqtt_client_init env uri h) = Exits EXIT_FAILURE)
   \<and> (fst (mqtt_client_init env uri h) = Continues () \<longrightarrow>
        MQTTCLIENT_SUCCESS \<in> set (connect_replies (since h (snd (mqtt_client_init env uri h)))))"
proof -
  let ?e1 = "(MQTTClient_create uri, env h (MQTTClient_create uri))"
  let ?e2 = "(MQTTClient_setCallbacks, env (h @ [?e1]) MQTTClient_setCallbacks)"
  let ?h2 = "h @ [?e1, ?e2]"
  obtain new where n: "snd (mqtt_client_connect env ?h2) = ?h2 @ new"
    "1 \<le> length (connect_replies new)"
    "fst (mqtt_client_connect env ?h2) = last (connect_replies new)"
    using mqtt_client_connect_run [of env ?h2] by blast
  have ne: "connect_replies new \<noteq> []"
    using n(2) by auto
  have cr: "connect_replies (?e1 # ?e2 # new) = connect_replies new"
    by (simp add: connect_replies_def)
  have "fst (mqtt_client_connect env ?h2) = MQTTCLIENT_SUCCESS \<Longrightarrow>
      MQTTCLIENT_SUCCESS \<in> set (connect_replies (since h (snd (mqtt_client_connect env ?h2))))"
    using n(3) ne last_in_set [OF ne] by (simp add: n(1) since_def cr)
  then show ?thesis
    by (auto simp: mqtt_client_init_def sys_def split: prod.splits)
qed

text \<open>
  Claim C4 says that five attempts are allowed and that five failures are fatal. The loop
  of \<open>mqtt_client_connect\<close> allows five retries after the first attempt: a broker
  that refuses five connections and accepts the sixth is connected to, and the
  initialization returns.
\<close>

theorem mqtt_connect_counterexample:
  "mqtt_client_connect late_broker_env [] =
     (MQTTCLIENT_SUCCESS,
      [(MQTTClient_connect, (- 1, [])), (Sleep 5, (0, [])),
       (MQTTClient_connect, (- 1, [])), (Sleep 5, (0, [])),
       (MQTTClient_connect, (- 1, [])), (Sleep 5, (0, [])),
       (MQTTClient_connect, (- 1, [])), (Sleep 5, (0, [])),
       (MQTTClient_connect, (- 1, [])), (Sleep 5, (0, [])),
       (MQTTClient_connect, (0, []))])
   \<and> fst (mqtt_client_init late_broker_env ''tcp://broker:1883'' []) = Continues ()"
  by (simp add: mqtt_client_init_def mqtt_client_connect_def mqtt_connect_loop.simps sys_def
      late_broker_env_def connect_replies_def MQTTCLIENT_SUCCESS_def)

text \<open>
  Claim C4, amended: \<open>mqtt_client_connect\<close> makes between one and six connection
  attempts, each after the first preceded by a sleep of 5 seconds; every attempt but the
  last failed, and the result is that of the last attempt, so a connection that succeeds
  on any of the six attempts returns success; a failure is returned only after six
  failed attempts. \<open>mqtt_client_init\<close> either returns or exits with failure, and it
  returns only if a connection attempt succeeded.
\<close>

theorem mqtt_connect_bounded:
  "(let res = fst (mqtt_client_connect env h);
        new = since h (snd (mqtt_client_connect env h));
        atts = connect_replies new
    in calls new =
         MQTTClient_connect # concat (replicate (length atts - 1) [Sleep 5, MQTTClient_connect])
       \<and> 1 \<le> length atts \<and> length atts \<le> 6
       \<and> res = last atts
       \<and> (\<forall>x \<in> set (butlast atts). x \<noteq> MQTTCLIENT_SUCCESS)
       \<and> (res \<noteq> MQTTCLIENT_SUCCESS \<longrightarrow> length atts = 6))
   \<and> (fst (mqtt_client_init env uri h) = Continues () \<or>
      fst (mqtt_client_init env uri h) = Exits EXIT_FAILURE)
   \<and> (fst (mqtt_client_init env uri h) = Continues () \<longrightarrow>
        MQTTCLIENT_SUCCESS \<in> set (connect_replies (since h (snd (mqtt_client_init env uri h)))))"
proof -
  obtain new where n: "snd (mqtt_client_connect env h) = h @ new"
    and p: "calls new =
         MQTTClient_connect #
         concat (replicate (length (connect_replies new) - 1) [Sleep 5, MQTTClient_connect])
     \<and> 1 \<le> length (connect_replies new) \<and> length (connect_replies new) \<le> 6
     \<and> fst (mqtt_client_connect env h) = last (connect_replies new)
     \<and> (\<forall>x \<in> set (butlast (connect_replies new)). x \<noteq> MQTTCLIENT_SUCCESS)
     \<and> (fst (mqtt_client_connect env h) \<noteq> MQTTCLIENT_SUCCESS \<longrightarrow> length (connect_replies new) = 6)"
    using mqtt_client_connect_run [of env h] by blast
  have s: "since h (snd (mqtt_client_connect env h)) = new"
    by (simp add: n since_def)
  show ?thesis
    unfolding Let_def s using p mqtt_client_init_run [of env uri h] by blast
qed

theorem mqtt_connect_bounded_witness:
  "length (connect_replies (since [] (snd (mqtt_client_connect no_broker_env [])))) = 6
   \<and> fst (mqtt_client_connect no_broker_env []) \<noteq> MQTTCLIENT_SUCCESS
   \<and> fst (mqtt_client_init no_broker_env ''tcp://broker:1883'' []) = Exits EXIT_FAILURE"
proof -
  have r: "fst (mqtt_client_connect no_broker_env []) \<noteq> MQTTCLIENT_SUCCESS"
    by (simp add: mqtt_client_connect_def mqtt_connect_loop.simps sys_def no_broker_env_def
        MQTTCLIENT_SUCCESS_def)
  have i: "MQTTCLIENT_SUCCESS \<notin>
      set (connect_replies (since [] (snd (mqtt_client_init no_broker_env ''tcp://broker:1883'' []))))"
    by (simp add: mqtt_client_init_def mqtt_client_connect_def mqtt_connect_loop.simps sys_def
        no_broker_env_def MQTTCLIENT_SUCCESS_def since_def connect_replies_def)
  note t = mqtt_connect_bounded [of no_broker_env "[]" "''tcp://broker:1883''"]
  from t r have a: "length (connect_replies (since [] (snd (mqtt_client_connect no_broker_env [])))) = 6"
    unfolding Let_def by blast
  from t i have b: "fst (mqtt_client_init no_broker_env ''tcp://broker:1883'' []) = Exits EXIT_FAILURE"
    unfolding Let_def by blast
  from a r b show ?thesis by blast
qed

section \<open>The application: the control loop\<close>

subsection \<open>The pump decision\<close>

lemma open_write_close_ok:
  "\<not> fst (open_write_close env path s n h) \<Longrightarrow>
   \<exists>fd new. snd (open_write_close env path s n h) = h @ new
     \<and> calls new = [Open path, Write fd s n, Close fd]
     \<and> without_telemetry new = new"
  by (auto simp: open_write_close_def sys_def calls_def without_telemetry_def
      split: prod.splits if_splits)

lemma gpio_on_ok:
  "fst (gpio_on env h) \<noteq> GPIO_ERROR \<Longrightarrow>
   \<exists>fd new. snd (gpio_on env h) = h @ new
     \<and> calls new = [Open GPIO_VALUE, Write fd GPIO_ON 1, Close fd]
     \<and> without_telemetry new = new"
  using open_write_close_ok [of env GPIO_VALUE GPIO_ON "length GPIO_ON" h]
  by (auto simp: gpio_on_def Let_def GPIO_ON_def split: prod.splits if_splits)

lemma gpio_off_ok:
  "fst (gpio_off env h) \<noteq> GPIO_ERROR \<Longrightarrow>
   \<exists>fd new. snd (gpio_off env h) = h @ new
     \<and> calls new = [Open GPIO_VALUE, Write fd GPIO_OFF 1, Close fd]
     \<and> without_telemetry new = new"
  using open_write_close_ok [of env GPIO_VALUE GPIO_OFF "length GPIO_OFF" h]
  by (auto simp: gpio_off_def Let_def GPIO_OFF_def split: prod.splits if_splits)

lemma report_run:
  "\<exists>new. report env cfg m h = h @ new \<and> without_telemetry new = []"
  by (simp add: report_def mqtt_publish_msg_def sys_def without_telemetry_def)

lemma without_telemetry_append:
  "without_telemetry (a @ b) = without_telemetry a @ without_telemetry b"
  by (simp add: without_telemetry_def)

lemma calls_append: "calls (a @ b) = calls a @ calls b"
  by (simp add: calls_def)

lemma sleep_run:
  "snd (sys env (Sleep t) h) = h @ [(Sleep t, env h (Sleep t))]"
  by (simp add: sys_def)

lemma wt_Cons:
  "without_telemetry ((c, r) # xs) =
     (if is_publish c then without_telemetry xs else (c, r) # without_telemetry xs)"
  by (simp add: without_telemetry_def)

lemma wt_Nil: "without_telemetry [] = []"
  by (simp add: without_telemetry_def)

lemma pass_cases:
  assumes rd: "env h (Read (soil_drv_fd cfg) 1) = (1, d)"
    and b: "b = fill [current] d ! 0"
    and h2: "h2 = report env cfg (Current_moisture b) (h @ [(Read (soil_drv_fd cfg) 1, (1, d))])"
    and h4: "h4 = snd (sys env (Sleep (pump_time cfg))
                    (report env cfg (Pump_on (pump_time cfg)) (snd (gpio_on env h2))))"
  shows "loop_body env cfg current h =
    (if b < target cfg then
       if fst (gpio_on env h2) = GPIO_ERROR then
         (Exits EXIT_FAILURE, snd (gpio_disable env (snd (gpio_on env h2))))
       else if fst (gpio_off env h4) = GPIO_ERROR then
         (Exits EXIT_FAILURE, snd (gpio_disable env (snd (gpio_off env h4))))
       else
         (Continues b,
          snd (sys env (Sleep (sleep_time cfg))
            (report env cfg (Sleeping_for (sleep_time cfg))
              (report env cfg Pump_off (snd (gpio_off env h4))))))
     else
       (Continues b,
        snd (sys env (Sleep (sleep_time cfg)) (report env cfg (Sleeping_for (sleep_time cfg)) h2))))"
  using rd unfolding h4 h2 b
  by (simp add: loop_body_def sys_def Let_def case_prod_unfold)

lemma pass_high:
  assumes rd: "env h (Read (soil_drv_fd cfg) 1) = (1, d)"
    and b: "b = fill [current] d ! 0"
    and hi: "\<not> b < target cfg"
  shows "fst (loop_body env cfg current h) = Continues b
    \<and> calls (without_telemetry (since h (snd (loop_body env cfg current h)))) =
        [Read (soil_drv_fd cfg) 1, Sleep (sleep_time cfg)]"
proof -
  let ?rd = "Read (soil_drv_fd cfg) 1"
  let ?h1 = "h @ [(?rd, (1, d))]"
  let ?h2 = "report env cfg (Current_moisture b) ?h1"
  let ?h6 = "report env cfg (Sleeping_for (sleep_time cfg)) ?h2"
  let ?h4 = "snd (sys env (Sleep (pump_time cfg))
                    (report env cfg (Pump_on (pump_time cfg)) (snd (gpio_on env ?h2))))"
  have eq: "loop_body env cfg current h = (Continues b, snd (sys env (Sleep (sleep_time cfg)) ?h6))"
    using pass_cases [where ?h2.0 = ?h2 and ?h4.0 = ?h4, OF rd b refl refl] hi by simp
  obtain p1 where p1: "?h2 = ?h1 @ p1" "without_telemetry p1 = []"
    using report_run by blast
  obtain p4 where p4: "?h6 = ?h2 @ p4" "without_telemetry p4 = []"
    using report_run by blast
  have all: "snd (sys env (Sleep (sleep_time cfg)) ?h6) = h @ [(?rd, (1, d))] @ p1 @ p4
      @ [(Sleep (sleep_time cfg), env ?h6 (Sleep (sleep_time cfg)))]"
    using sleep_run [of env "sleep_time cfg" ?h6] p4(1) p1(1) by simp
  have "calls (without_telemetry (since h (snd (sys env (Sleep (sleep_time cfg)) ?h6)))) =
      [?rd, Sleep (sleep_time cfg)]"
    by (subst all)
       (simp add: since_def without_telemetry_append calls_append wt_Cons wt_Nil p1(2) p4(2)
        calls_def)
  then show ?thesis
    by (simp add: eq)
qed

lemma pump_on_run:
  assumes h2: "h2 = report env cfg (Current_moisture b) (h @ [(Read (soil_drv_fd cfg) 1, (1, d))])"
    and h4: "h4 = snd (sys env (Sleep (pump_time cfg))
                    (report env cfg (Pump_on (pump_time cfg)) (snd (gpio_on env h2))))"
    and on_ok: "fst (gpio_on env h2) \<noteq> GPIO_ERROR"
  shows "\<exists>fd1 new. h4 = h @ new \<and> calls (without_telemetry new) =
      [Read (soil_drv_fd cfg) 1, Open GPIO_VALUE, Write fd1 GPIO_ON 1, Close fd1,
       Sleep (pump_time cfg)]"
proof -
  let ?rd = "Read (soil_drv_fd cfg) 1"
  let ?h1 = "h @ [(?rd, (1, d))]"
  let ?h3 = "snd (gpio_on env h2)"
  let ?h3' = "report env cfg (Pump_on (pump_time cfg)) ?h3"
  obtain p1 where p1: "h2 = ?h1 @ p1" "without_telemetry p1 = []"
    unfolding h2 using report_run by blast
  obtain fd1 on where on: "?h3 = h2 @ on"
    "calls on = [Open GPIO_VALUE, Write fd1 GPIO_ON 1, Close fd1]" "without_telemetry on = on"
    using gpio_on_ok [OF on_ok] by blast
  obtain p2 where p2: "?h3' = ?h3 @ p2" "without_telemetry p2 = []"
    using report_run by blast
  have s1: "h4 = ?h3' @ [(Sleep (pump_time cfg), env ?h3' (Sleep (pump_time cfg)))]"
    unfolding h4 by (rule sleep_run)
  let ?new = "[(?rd, (1, d))] @ p1 @ on @ p2
      @ [(Sleep (pump_time cfg), env ?h3' (Sleep (pump_time cfg)))]"
  have all: "h4 = h @ ?new"
    using s1 p2(1) on(1) p1(1) by simp
  have "calls (without_telemetry ?new) = [?rd] @ calls on @ [Sleep (pump_time cfg)]"
    by (simp add: without_telemetry_append calls_append wt_Cons wt_Nil p1(2) p2(2) on(3) calls_def)
  then have "calls (without_telemetry ?new) =
      [?rd, Open GPIO_VALUE, Write fd1 GPIO_ON 1, Close fd1, Sleep (pump_time cfg)]"
    unfolding on(2) by simp
  with all show ?thesis by blast
qed

lemma pass_low:
  assumes rd: "env h (Read (soil_drv_fd cfg) 1) = (1, d)"
    and b: "b = fill [current] d ! 0"
    and h2: "h2 = report env cfg (Current_moisture b) (h @ [(Read (soil_drv_fd cfg) 1, (1, d))])"
    and h4: "h4 = snd (sys env (Sleep (pump_time cfg))
                    (report env cfg (Pump_on (pump_time cfg)) (snd (gpio_on env h2))))"
    and lo: "b < target cfg"
    and on_ok: "fst (gpio_on env h2) \<noteq> GPIO_ERROR"
    and off_ok: "fst (gpio_off env h4) \<noteq> GPIO_ERROR"
  shows "fst (loop_body env cfg current h) = Continues b
    \<and> (\<exists>fd1 fd2. calls (without_telemetry (since h (snd (loop_body env cfg current h)))) =
        [Read (soil_drv_fd cfg) 1,
         Open GPIO_VALUE, Write fd1 GPIO_ON 1, Close fd1,
         Sleep (pump_time cfg),
         Open GPIO_VALUE, Write fd2 GPIO_OFF 1, Close fd2,
         Sleep (sleep_time cfg)])"
proof -
  let ?h5 = "snd (gpio_off env h4)"
  let ?h6 = "report env cfg (Sleeping_for (sleep_time cfg)) (report env cfg Pump_off ?h5)"
  let ?h' = "snd (sys env (Sleep (sleep_time cfg)) ?h6)"
  have eq: "loop_body env cfg current h = (Continues b, ?h')"
    using pass_cases [OF rd b h2 h4] lo on_ok off_ok by simp
  obtain fd1 new where n: "h4 = h @ new" "calls (without_telemetry new) =
      [Read (soil_drv_fd cfg) 1, Open GPIO_VALUE, Write fd1 GPIO_ON 1, Close fd1,
       Sleep (pump_time cfg)]"
    using pump_on_run [OF h2 h4 on_ok] by blast
  obtain fd2 off where off: "?h5 = h4 @ off"
    "calls off = [Open GPIO_VALUE, Write fd2 GPIO_OFF 1, Close fd2]" "without_telemetry off = off"
    using gpio_off_ok [OF off_ok] by blast
  obtain p3 where p3: "report env cfg Pump_off ?h5 = ?h5 @ p3" "without_telemetry p3 = []"
    using report_run by blast
  obtain p4 where p4: "?h6 = report env cfg Pump_off ?h5 @ p4" "without_telemetry p4 = []"
    using report_run by blast
  have all: "?h' = h @ new @ off @ p3 @ p4
      @ [(Sleep (sleep_time cfg), env ?h6 (Sleep (sleep_time cfg)))]"
    using sleep_run [of env "sleep_time cfg" ?h6] p4(1) p3(1) off(1) n(1) by simp
  have "calls (without_telemetry (since h ?h')) =
      calls (without_telemetry new) @ calls off @ [Sleep (sleep_time cfg)]"
    by (subst all)
       (simp add: since_def without_telemetry_append calls_append wt_Cons wt_Nil p3(2) p4(2)
        off(3) calls_def)
  then have "calls (without_telemetry (since h ?h')) =
        [Read (soil_drv_fd cfg) 1,
         Open GPIO_VALUE, Write fd1 GPIO_ON 1, Close fd1,
         Sleep (pump_time cfg),
         Open GPIO_VALUE, Write fd2 GPIO_OFF 1, Close fd2,
         Sleep (sleep_time cfg)]"
    unfolding n(2) off(2) by simp
  then show ?thesis
    unfolding eq by auto
qed

lemma open_write_close_succeeds:
  assumes "\<forall>h p. fst (env h (Open p)) \<noteq> - 1"
    and "\<forall>h fd s n. fst (env h (Write fd s n)) = int n"
    and "\<forall>h fd. fst (env h (Close fd)) = 0"
  shows "\<not> fst (open_write_close env path s n h)"
  using assms by (simp add: open_write_close_def sys_def case_prod_unfold)

text \<open>
  Claim C6 says that with a reading below the target the loop turns the pump on, sleeps
  for \<open>pump_time\<close> and then turns the pump off. The loop tests the result of \<open>gpio_on\<close>
  and of \<open>gpio_off\<close> and exits when one of them fails. With control files on which only
  the first open of the value control succeeds and a reading of 100 against the target
  128, the pass turns the pump on, sleeps, fails to open the value control again, fails
  to disable the pin, and exits: the pump is never turned off.
\<close>

theorem pump_decision_counterexample:
  "(100 :: byte) < target scenario_cfg
   \<and> loop_body pump_stuck_env scenario_cfg 0 [] =
       (Exits EXIT_FAILURE,
        [(Read 3 1, (1, [100])),
         (Open GPIO_VALUE, (4, [])), (Write 4 GPIO_ON 1, (1, [])), (Close 4, (0, [])),
         (Sleep 5, (0, [])),
         (Open GPIO_VALUE, (- 1, [])),
         (Open GPIO_DIRECTION, (- 1, []))])"
  by (simp add: loop_body_def gpio_on_def gpio_off_def gpio_disable_def open_write_close_def
      report_def sys_def pump_stuck_env_def scenario_cfg_def fill_def Let_def calls_def
      gpio_names GPIO_ERROR_def GPIO_OK_def)

text \<open>
  Claim C6, amended: take a pass of the loop whose read returns one byte, the reading
  \<open>b\<close>; \<open>h2\<close> is the history when the pump decision is made and \<open>h4\<close> the history
  after the sleep for \<open>pump_time\<close>.
  \<^item> If \<open>b\<close> is not below the target, the pass goes on and its calls (telemetry aside)
    are the read and the sleep for \<open>sleep_time\<close>: the pump is not actuated at all.
  \<^item> If \<open>b\<close> is below the target, the pass attempts \<open>gpio_on\<close>. If that fails, it
    attempts \<open>gpio_disable\<close>, ignores the result and exits with failure. If it succeeds,
    the pump is turned on and the pass sleeps for \<open>pump_time\<close>, then attempts
    \<open>gpio_off\<close>. If that fails, it attempts \<open>gpio_disable\<close>, ignores the result and
    exits with failure. If it succeeds, the pass goes on, and its calls are the read,
    the write of \<open>1\<close> to the value control, the sleep for \<open>pump_time\<close>, the write of
    \<open>0\<close> to the value control and the sleep for \<open>sleep_time\<close>.
  \<^item> In an environment where every open, write and close succeeds, a pass with \<open>b\<close>
    below the target is of the last kind.
  \<^item> In the scenario with target 128 and the readings 100 and 150, the first pass runs
    the pump for \<open>pump_time\<close> and the second does not actuate it.
\<close>

theorem pump_decision:
  assumes rd: "env h (Read (soil_drv_fd cfg) 1) = (1, d)"
    and b: "b = fill [current] d ! 0"
    and h2: "h2 = report env cfg (Current_moisture b) (h @ [(Read (soil_drv_fd cfg) 1, (1, d))])"
    and h4: "h4 = snd (sys env (Sleep (pump_time cfg))
                    (report env cfg (Pump_on (pump_time cfg)) (snd (gpio_on env h2))))"
  shows
   "(\<not> b < target cfg \<longrightarrow>
       fst (loop_body env cfg current h) = Continues b
       \<and> calls (without_telemetry (since h (snd (loop_body env cfg current h)))) =
           [Read (soil_drv_fd cfg) 1, Sleep (sleep_time cfg)])
    \<and> (b < target cfg \<and> fst (gpio_on env h2) = GPIO_ERROR \<longrightarrow>
         loop_body env cfg current h =
           (Exits EXIT_FAILURE, snd (gpio_disable env (snd (gpio_on env h2)))))
    \<and> (b < target cfg \<and> fst (gpio_on env h2) \<noteq> GPIO_ERROR \<longrightarrow>
         (\<exists>fd1. calls (without_telemetry (since h h4)) =
            [Read (soil_drv_fd cfg) 1,
             Open GPIO_VALUE, Write fd1 GPIO_ON 1, Close fd1,
             Sleep (pump_time cfg)]))
    \<and> (b < target cfg \<and> fst (gpio_on env h2) \<noteq> GPIO_ERROR
         \<and> fst (gpio_off env h4) = GPIO_ERROR \<longrightarrow>
         loop_body env cfg current h =
           (Exits EXIT_FAILURE, snd (gpio_disable env (snd (gpio_off env h4)))))
    \<and> (b < target cfg \<and> fst (gpio_on env h2) \<noteq> GPIO_ERROR
         \<and> fst (gpio_off env h4) \<noteq> GPIO_ERROR \<longrightarrow>
         fst (loop_body env cfg current h) = Continues b
         \<and> (\<exists>fd1 fd2. calls (without_telemetry (since h (snd (loop_body env cfg current h)))) =
              [Read (soil_drv_fd cfg) 1,
               Open GPIO_VALUE, Write fd1 GPIO_ON 1, Close fd1,
               Sleep (pump_time cfg),
               Open GPIO_VALUE, Write fd2 GPIO_OFF 1, Close fd2,
               Sleep (sleep_time cfg)]))
    \<and> (b < target cfg
         \<and> (\<forall>h p. fst (env h (Open p)) \<noteq> - 1)
         \<and> (\<forall>h fd s n. fst (env h (Write fd s n)) = int n)
         \<and> (\<forall>h fd. fst (env h (Close fd)) = 0) \<longrightarrow>
         fst (loop_body env cfg current h) = Continues b
         \<and> (\<exists>fd1 fd2. calls (without_telemetry (since h (snd (loop_body env cfg current h)))) =
              [Read (soil_drv_fd cfg) 1,
               Open GPIO_VALUE, Write fd1 GPIO_ON 1, Close fd1,
               Sleep (pump_time cfg),
               Open GPIO_VALUE, Write fd2 GPIO_OFF 1, Close fd2,
               Sleep (sleep_time cfg)]))
    \<and> main_loop 2 scenario_env scenario_cfg 0 [] =
       (Continues 150,
        [(Read 3 1, (1, [100])),
         (Open GPIO_VALUE, (4, [])), (Write 4 GPIO_ON 1, (1, [])), (Close 4, (0, [])),
         (Sleep 5, (0, [])),
         (Open GPIO_VALUE, (4, [])), (Write 4 GPIO_OFF 1, (1, [])), (Close 4, (0, [])),
         (Sleep 3600, (0, [])),
         (Read 3 1, (1, [150])),
         (Sleep 3600, (0, []))])"
proof -
  note cases = pass_cases [OF rd b h2 h4]
  have c1: "fst (loop_body env cfg current h) = Continues b
       \<and> calls (without_telemetry (since h (snd (loop_body env cfg current h)))) =
           [Read (soil_drv_fd cfg) 1, Sleep (sleep_time cfg)]"
    if "\<not> b < target cfg"
    by (rule pass_high [where env = env and h = h and current = current, OF rd b that])
  have c2: "loop_body env cfg current h =
           (Exits EXIT_FAILURE, snd (gpio_disable env (snd (gpio_on env h2))))"
    if "b < target cfg" "fst (gpio_on env h2) = GPIO_ERROR"
    using cases that by simp
  have c3: "\<exists>fd1. calls (without_telemetry (since h h4)) =
            [Read (soil_drv_fd cfg) 1,
             Open GPIO_VALUE, Write fd1 GPIO_ON 1, Close fd1,
             Sleep (pump_time cfg)]"
    if on_ok: "fst (gpio_on env h2) \<noteq> GPIO_ERROR"
  proof -
    obtain fd1 new where "h4 = h @ new" "calls (without_telemetry new) =
      [Read (soil_drv_fd cfg) 1, Open GPIO_VALUE, Write fd1 GPIO_ON 1, Close fd1,
       Sleep (pump_time cfg)]"
      using pump_on_run [OF h2 h4 on_ok] by blast
    then show ?thesis
      by (auto simp: since_def)
  qed
  have c4: "loop_body env cfg current h =
           (Exits EXIT_FAILURE, snd (gpio_disable env (snd (gpio_off env h4))))"
    if "b < target cfg" "fst (gpio_on env h2) \<noteq> GPIO_ERROR" "fst (gpio_off env h4) = GPIO_ERROR"
    using cases that by simp
  have c5: "fst (loop_body env cfg current h) = Continues b
         \<and> (\<exists>fd1 fd2. calls (without_telemetry (since h (snd (loop_body env cfg current h)))) =
              [Read (soil_drv_fd cfg) 1,
               Open GPIO_VALUE, Write fd1 GPIO_ON 1, Close fd1,
               Sleep (pump_time cfg),
               Open GPIO_VALUE, Write fd2 GPIO_OFF 1, Close fd2,
               Sleep (sleep_time cfg)])"
    if "b < target cfg" "fst (gpio_on env h2) \<noteq> GPIO_ERROR" "fst (gpio_off env h4) \<noteq> GPIO_ERROR"
    using pass_low [OF rd b h2 h4 that] .
  have ok: "fst (gpio_on env h2) \<noteq> GPIO_ERROR \<and> fst (gpio_off env h4) \<noteq> GPIO_ERROR"
    if "\<forall>h p. fst (env h (Open p)) \<noteq> - 1" "\<forall>h fd s n. fst (env h (Write fd s n)) = int n"
      "\<forall>h fd. fst (env h (Close fd)) = 0"
    using open_write_close_succeeds [OF that]
    by (simp add: gpio_on_def gpio_off_def Let_def case_prod_unfold GPIO_ERROR_def GPIO_OK_def)
  have "main_loop (Suc (Suc 0)) scenario_env scenario_cfg 0 [] =
       (Continues 150,
        [(Read 3 1, (1, [100])),
         (Open GPIO_VALUE, (4, [])), (Write 4 GPIO_ON 1, (1, [])), (Close 4, (0, [])),
         (Sleep 5, (0, [])),
         (Open GPIO_VALUE, (4, [])), (Write 4 GPIO_OFF 1, (1, [])), (Close 4, (0, [])),
         (Sleep 3600, (0, [])),
         (Read 3 1, (1, [150])),
         (Sleep 3600, (0, []))])"
    by (simp add: loop_body_def gpio_on_def gpio_off_def open_write_close_def
        report_def sys_def scenario_env_def scenario_cfg_def fill_def Let_def GPIO_ON_def
        GPIO_OFF_def GPIO_ERROR_def GPIO_OK_def)
  then have scen: "main_loop 2 scenario_env scenario_cfg 0 [] =
       (Continues 150,
        [(Read 3 1, (1, [100])),
         (Open GPIO_VALUE, (4, [])), (Write 4 GPIO_ON 1, (1, [])), (Close 4, (0, [])),
         (Sleep 5, (0, [])),
         (Open GPIO_VALUE, (4, [])), (Write 4 GPIO_OFF 1, (1, [])), (Close 4, (0, [])),
         (Sleep 3600, (0, [])),
         (Read 3 1, (1, [150])),
         (Sleep 3600, (0, []))])"
    by (simp only: numeral_2_eq_2)
  show ?thesis
    using c1 c2 c3 c4 c5 ok scen by blast
qed

theorem pump_decision_witness:
  "scenario_env [] (Read (soil_drv_fd scenario_cfg) 1) = (1, [100])
   \<and> (100 :: byte) < target scenario_cfg
   \<and> fst (loop_body scenario_env scenario_cfg 0 []) = Continues 100
   \<and> (\<exists>fd1 fd2.
         calls (without_telemetry (since [] (snd (loop_body scenario_env scenario_cfg 0 [])))) =
           [Read (soil_drv_fd scenario_cfg) 1,
            Open GPIO_VALUE, Write fd1 GPIO_ON 1, Close fd1,
            Sleep (pump_time scenario_cfg),
            Open GPIO_VALUE, Write fd2 GPIO_OFF 1, Close fd2,
            Sleep (sleep_time scenario_cfg)])
   \<and> scenario_env [(Read 3 1, (1, [100])),
          (Open GPIO_VALUE, (4, [])), (Write 4 GPIO_ON 1, (1, [])), (Close 4, (0, [])),
          (Sleep 5, (0, [])),
          (Open GPIO_VALUE, (4, [])), (Write 4 GPIO_OFF 1, (1, [])), (Close 4, (0, [])),
          (Sleep 3600, (0, []))] (Read (soil_drv_fd scenario_cfg) 1) = (1, [150])
   \<and> \<not> (150 :: byte) < target scenario_cfg
   \<and> fst (loop_body scenario_env scenario_cfg 100 [(Read 3 1, (1, [100])),
          (Open GPIO_VALUE, (4, [])), (Write 4 GPIO_ON 1, (1, [])), (Close 4, (0, [])),
          (Sleep 5, (0, [])),
          (Open GPIO_VALUE, (4, [])), (Write 4 GPIO_OFF 1, (1, [])), (Close 4, (0, [])),
          (Sleep 3600, (0, []))]) = Continues 150
   \<and> calls (without_telemetry (since [(Read 3 1, (1, [100])),
          (Open GPIO_VALUE, (4, [])), (Write 4 GPIO_ON 1, (1, [])), (Close 4, (0, [])),
          (Sleep 5, (0, [])),
          (Open GPIO_VALUE, (4, [])), (Write 4 GPIO_OFF 1, (1, [])), (Close 4, (0, [])),
          (Sleep 3600, (0, []))]
         (snd (loop_body scenario_env scenario_cfg 100 [(Read 3 1, (1, [100])),
          (Open GPIO_VALUE, (4, [])), (Write 4 GPIO_ON 1, (1, [])), (Close 4, (0, [])),
          (Sleep 5, (0, [])),
          (Open GPIO_VALUE, (4, [])), (Write 4 GPIO_OFF 1, (1, [])), (Close 4, (0, [])),
          (Sleep 3600, (0, []))])))) =
         [Read (soil_drv_fd scenario_cfg) 1, Sleep (sleep_time scenario_cfg)]
   \<and> pump_stuck_env [] (Read (soil_drv_fd scenario_cfg) 1) = (1, [100])
   \<and> fst (loop_body pump_stuck_env scenario_cfg 0 []) = Exits EXIT_FAILURE"
proof -
  have rd1: "scenario_env [] (Read (soil_drv_fd scenario_cfg) 1) = (1, [100])"
    by (simp add: scenario_env_def)
  have b1: "(100 :: byte) = fill [0] [100] ! 0"
    by (simp add: fill_def)
  have lt: "(100 :: byte) < target scenario_cfg"
    by (simp add: scenario_cfg_def)
  have ok: "\<forall>h p. fst (scenario_env h (Open p)) \<noteq> - 1"
    "\<forall>h fd s n. fst (scenario_env h (Write fd s n)) = int n"
    "\<forall>h fd. fst (scenario_env h (Close fd)) = 0"
    by (simp_all add: scenario_env_def)
  note t1 = pump_decision [where env = scenario_env and h = "[]" and cfg = scenario_cfg
      and current = 0 and d = "[100]" and b = 100, OF rd1 b1 refl refl]
  from t1 lt ok have w1: "fst (loop_body scenario_env scenario_cfg 0 []) = Continues 100
   \<and> (\<exists>fd1 fd2.
         calls (without_telemetry (since [] (snd (loop_body scenario_env scenario_cfg 0 [])))) =
           [Read (soil_drv_fd scenario_cfg) 1,
            Open GPIO_VALUE, Write fd1 GPIO_ON 1, Close fd1,
            Sleep (pump_time scenario_cfg),
            Open GPIO_VALUE, Write fd2 GPIO_OFF 1, Close fd2,
            Sleep (sleep_time scenario_cfg)])"
    by blast
  have rd2: "scenario_env [(Read 3 1, (1, [100])),
          (Open GPIO_VALUE, (4, [])), (Write 4 GPIO_ON 1, (1, [])), (Close 4, (0, [])),
          (Sleep 5, (0, [])),
          (Open GPIO_VALUE, (4, [])), (Write 4 GPIO_OFF 1, (1, [])), (Close 4, (0, [])),
          (Sleep 3600, (0, []))] (Read (soil_drv_fd scenario_cfg) 1) = (1, [150])"
    by (simp add: scenario_env_def)
  have b2: "(150 :: byte) = fill [100] [150] ! 0"
    by (simp add: fill_def)
  have ge: "\<not> (150 :: byte) < target scenario_cfg"
    by (simp add: scenario_cfg_def)
  note t2 = pump_decision [where env = scenario_env and h = "[(Read 3 1, (1, [100])),
          (Open GPIO_VALUE, (4, [])), (Write 4 GPIO_ON 1, (1, [])), (Close 4, (0, [])),
          (Sleep 5, (0, [])),
          (Open GPIO_VALUE, (4, [])), (Write 4 GPIO_OFF 1, (1, [])), (Close 4, (0, [])),
          (Sleep 3600, (0, []))]"
      and cfg = scenario_cfg and current = 100 and d = "[150]" and b = 150, OF rd2 b2 refl refl]
  from t2 ge have w2:
    "fst (loop_body scenario_env scenario_cfg 100 [(Read 3 1, (1, [100])),
          (Open GPIO_VALUE, (4, [])), (Write 4 GPIO_ON 1, (1, [])), (Close 4, (0, [])),
          (Sleep 5, (0, [])),
          (Open GPIO_VALUE, (4, [])), (Write 4 GPIO_OFF 1, (1, [])), (Close 4, (0, [])),
          (Sleep 3600, (0, []))]) = Continues 150
     \<and> calls (without_telemetry (since [(Read 3 1, (1, [100])),
          (Open GPIO_VALUE, (4, [])), (Write 4 GPIO_ON 1, (1, [])), (Close 4, (0, [])),
          (Sleep 5, (0, [])),
          (Open GPIO_VALUE, (4, [])), (Write 4 GPIO_OFF 1, (1, [])), (Close 4, (0, [])),
          (Sleep 3600, (0, []))]
         (snd (loop_body scenario_env scenario_cfg 100 [(Read 3 1, (1, [100])),
          (Open GPIO_VALUE, (4, [])), (Write 4 GPIO_ON 1, (1, [])), (Close 4, (0, [])),
          (Sleep 5, (0, [])),
          (Open GPIO_VALUE, (4, [])), (Write 4 GPIO_OFF 1, (1, [])), (Close 4, (0, [])),
          (Sleep 3600, (0, []))])))) =
         [Read (soil_drv_fd scenario_cfg) 1, Sleep (sleep_time scenario_cfg)]"
    by blast
  have rd3: "pump_stuck_env [] (Read (soil_drv_fd scenario_cfg) 1) = (1, [100])"
    by (simp add: pump_stuck_env_def)
  let ?h2 = "report pump_stuck_env scenario_cfg (Current_moisture 100)
      ([] @ [(Read (soil_drv_fd scenario_cfg) 1, (1, [100]))])"
  let ?h4 = "snd (sys pump_stuck_env (Sleep (pump_time scenario_cfg))
      (report pump_stuck_env scenario_cfg (Pump_on (pump_time scenario_cfg))
        (snd (gpio_on pump_stuck_env ?h2))))"
  have on3: "fst (gpio_on pump_stuck_env ?h2) \<noteq> GPIO_ERROR"
    by (simp add: gpio_on_def open_write_close_def report_def sys_def pump_stuck_env_def
        scenario_cfg_def Let_def calls_def gpio_names GPIO_ERROR_def GPIO_OK_def)
  have off3: "fst (gpio_off pump_stuck_env ?h4) = GPIO_ERROR"
    by (simp add: gpio_on_def gpio_off_def open_write_close_def report_def sys_def
        pump_stuck_env_def scenario_cfg_def Let_def calls_def gpio_names GPIO_ERROR_def
        GPIO_OK_def)
  note t3 = pump_decision [where env = pump_stuck_env and h = "[]" and cfg = scenario_cfg
      and current = 0 and d = "[100]" and b = 100, OF rd3 b1 refl refl]
  from t3 lt on3 off3 have "loop_body pump_stuck_env scenario_cfg 0 [] =
      (Exits EXIT_FAILURE, snd (gpio_disable pump_stuck_env (snd (gpio_off pump_stuck_env ?h4))))"
    by blast
  then have w3: "fst (loop_body pump_stuck_env scenario_cfg 0 []) = Exits EXIT_FAILURE"
    by simp
  from rd1 lt w1 rd2 ge w2 rd3 w3 show ?thesis
    by blast
qed

subsection \<open>A failed acquisition\<close>

text \<open>
  Claim C7: when the read of the sensor device does not return one byte, the pass
  attempts \<open>gpio_disable\<close>, ignores its result and exits with \<open>EXIT_FAILURE\<close>; the loop
  makes no further pass, and nothing in the pass opens the pump's value control.
\<close>

theorem acquisition_failure_fatal:
  assumes "fst (env h (Read (soil_drv_fd cfg) 1)) \<noteq> 1"
  shows "loop_body env cfg current h =
           (Exits EXIT_FAILURE,
            snd (gpio_disable env (snd (sys env (Read (soil_drv_fd cfg) 1) h))))
    \<and> main_loop (Suc n) env cfg current h = loop_body env cfg current h
    \<and> Open GPIO_VALUE \<notin> set (calls (since h (snd (loop_body env cfg current h))))"
proof -
  let ?rd = "Read (soil_drv_fd cfg) 1"
  let ?h1 = "h @ [(?rd, env h ?rd)]"
  have eq: "loop_body env cfg current h = (Exits EXIT_FAILURE, snd (gpio_disable env ?h1))"
    using assms by (simp add: loop_body_def sys_def case_prod_unfold)
  obtain new where n: "snd (gpio_disable env ?h1) = ?h1 @ new"
    using gpio_disable_extends by blast
  have a: "Open GPIO_VALUE \<notin> set (calls new)"
    using gpio_disable_no_value [of ?h1 env] unfolding n by (simp add: since_def)
  have nv: "Open GPIO_VALUE \<notin> set (calls (since h (snd (gpio_disable env ?h1))))"
    unfolding n using a by (simp add: since_def calls_def)
  show ?thesis
    using nv by (simp add: eq sys_def)
qed

theorem acquisition_failure_fatal_witness:
  "fst (read_error_env [] (Read (soil_drv_fd scenario_cfg) 1)) \<noteq> 1
   \<and> main_loop 2 read_error_env scenario_cfg 0 [] =
       (Exits EXIT_FAILURE,
        [(Read 3 1, (- 1, [])),
         (Open GPIO_DIRECTION, (4, [])), (Write 4 GPIO_INPUT 2, (2, [])), (Close 4, (0, [])),
         (Open GPIO_UNEXPORT, (4, [])), (Write 4 GPIO_PIN 2, (2, [])), (Close 4, (0, []))])"
proof -
  have h: "fst (read_error_env [] (Read (soil_drv_fd scenario_cfg) 1)) \<noteq> 1"
    by (simp add: read_error_env_def)
  have d: "snd (gpio_disable read_error_env
        (snd (sys read_error_env (Read (soil_drv_fd scenario_cfg) 1) []))) =
        [(Read 3 1, (- 1, [])),
         (Open GPIO_DIRECTION, (4, [])), (Write 4 GPIO_INPUT 2, (2, [])), (Close 4, (0, [])),
         (Open GPIO_UNEXPORT, (4, [])), (Write 4 GPIO_PIN 2, (2, [])), (Close 4, (0, []))]"
    by (simp add: gpio_disable_def open_write_close_def sys_def read_error_env_def
        scenario_cfg_def Let_def GPIO_INPUT_def GPIO_PIN_def)
  note t = acquisition_failure_fatal
    [where env = read_error_env and h = "[]" and cfg = scenario_cfg and current = 0
       and n = "Suc 0", OF h]
  have "main_loop (Suc (Suc 0)) read_error_env scenario_cfg 0 [] =
      (Exits EXIT_FAILURE, snd (gpio_disable read_error_env
        (snd (sys read_error_env (Read (soil_drv_fd scenario_cfg) 1) []))))"
    using t by simp
  then show ?thesis
    using h unfolding d by (simp only: numeral_2_eq_2 simp_thms)
qed

end
